theory Spec2Isabelle
  imports Main "HOL-Library.AList"
begin

section \<open>The container entry point \<^verbatim>\<open>bundles/runner/02_entrypoint.py\<close>\<close>

text \<open>
  The entry point is a Python 2 script. Its supervision core is the two context managers
  \<^verbatim>\<open>ChildSubReaper\<close> and \<^verbatim>\<open>GraceFulShutdown\<close>, the three launchers \<^verbatim>\<open>run_shell\<close>,
  \<^verbatim>\<open>start_service\<close>, \<^verbatim>\<open>run_cron\<close>, and \<^verbatim>\<open>dispatch\<close>.

  Every function of the script that touches the operating system is modelled as a
  function from a \<open>world\<close> (the process-wide state the script changes, and the trace of
  the effects it has completed) to an outcome: it returns a value, it raises, or it
  never returns (a blocking call that does not come back, or a loop that does not end).
  What the operating system answers is not the script's choice: it is read from an
  \<open>os_model\<close>, indexed by a clock that advances at every system call.
\<close>

subsection \<open>Values, exceptions, events\<close>

type_synonym pid = nat

datatype exn =
    OSError nat
  | IOError string
  | AttributeError
  | IndexError
  | KeyError string
  | TypeError
  | CalledProcessError int

text \<open>Values that appear as logging arguments and in template contexts.\<close>

datatype pyval = PStr string | PInt int

text \<open>
  An entry of the interpreter's signal handler table: one of the two special
  dispositions, the bound method \<^verbatim>\<open>graceful_shutdown_handler\<close> of a \<^verbatim>\<open>GraceFulShutdown\<close>
  object (named by the address of the object), or another Python callable (named by its
  identity). The script runs in a plain interpreter, where every handler is installed
  from Python, so \<^verbatim>\<open>signal.getsignal\<close> does not return \<^verbatim>\<open>None\<close>.
\<close>

datatype handler = SIG_DFL | SIG_IGN | BoundHandler nat | Callable nat

text \<open>The keyword arguments the script passes to \<^verbatim>\<open>subprocess.Popen\<close>.\<close>

record popen_kwargs =
  kw_cwd :: "string option"
  kw_env :: "(string \<times> string) list option"

text \<open>
  An event is an effect on the outside world that has been completed: a system call that
  raised leaves no event, the exception is its trace.
\<close>

datatype event =
    Prctl nat nat
  | LogInfo string "pyval list"
  | Signal nat handler
  | Spawned "string list" popen_kwargs pid
  | WaitPid pid int
  | Kill pid nat
  | Reaped pid int
  | CheckOutput "string list"
  | WroteFile string string "(string \<times> pyval) list"

subsection \<open>The process-wide state\<close>

text \<open>
  The fields of a \<^verbatim>\<open>GraceFulShutdown\<close> object (lines 82 to 87); \<^verbatim>\<open>process\<close> and
  \<^verbatim>\<open>old_handler\<close> start as \<^verbatim>\<open>None\<close>.
\<close>

record GraceFulShutdown =
  gs_args :: "string list"
  gs_kwargs :: popen_kwargs
  process :: "pid option"
  old_handler :: "handler option"

record world =
  clock :: nat
  trace :: "event list"
  handlers :: "nat \<Rightarrow> handler"
  child_subreaper :: bool
  heap :: "nat \<Rightarrow> GraceFulShutdown"
  next_ref :: nat

text \<open>
  The answer of \<^verbatim>\<open>os.wait()\<close>: a reaped child with its status, an \<^verbatim>\<open>OSError\<close> with its
  errno, or no answer at all (children exist and none of them ever changes state).
\<close>

datatype os_wait_outcome = WaitReturns pid int | WaitOSError nat | WaitBlocks

record os_model =
  popen_result :: "nat \<Rightarrow> string list \<Rightarrow> popen_kwargs \<Rightarrow> nat + pid"
  wait_result :: "nat \<Rightarrow> pid \<Rightarrow> int option"
  os_wait_result :: "nat \<Rightarrow> os_wait_outcome"
  kill_result :: "nat \<Rightarrow> pid \<Rightarrow> nat \<Rightarrow> nat option"
  path_exists :: "string \<Rightarrow> bool"
  environ :: "string \<Rightarrow> string option"
  home :: string
  check_output_result :: "nat \<Rightarrow> string list \<Rightarrow> exn + string"
  re_search_via :: "string \<Rightarrow> string option"
  int_of_str :: "string \<Rightarrow> int option"
  open_write_error :: "string \<Rightarrow> exn option"
  template_result :: "string \<Rightarrow> (string \<times> pyval) list \<Rightarrow> exn + string"

datatype 'a outcome = Returns 'a world | Raises exn world

text \<open>A computation: \<open>None\<close> is a call that never returns.\<close>

type_synonym 'a run = "world \<Rightarrow> 'a outcome option"

definition then_run :: "'a run \<Rightarrow> ('a \<Rightarrow> 'b run) \<Rightarrow> 'b run" where
  "then_run m f w =
     (case m w of
        None \<Rightarrow> None
      | Some (Raises e w') \<Rightarrow> Some (Raises e w')
      | Some (Returns a w') \<Rightarrow> f a w')"

definition ret :: "'a \<Rightarrow> 'a run" where
  "ret a w = Some (Returns a w)"

definition raise :: "exn \<Rightarrow> 'a run" where
  "raise e w = Some (Raises e w)"

definition emit :: "event \<Rightarrow> world \<Rightarrow> world" where
  "emit ev w = w\<lparr>trace := trace w @ [ev]\<rparr>"

definition tick :: "world \<Rightarrow> world" where
  "tick w = w\<lparr>clock := Suc (clock w)\<rparr>"

definition log_info :: "string \<Rightarrow> pyval list \<Rightarrow> unit run" where
  "log_info fmt fargs w = Some (Returns () (emit (LogInfo fmt fargs) w))"

text \<open>
  The \<^verbatim>\<open>with\<close> statement of Python 2: the manager is built, \<^verbatim>\<open>__enter__\<close> runs (when it
  raises, \<^verbatim>\<open>__exit__\<close> is not called), the body runs, and \<^verbatim>\<open>__exit__\<close> runs whether the
  body returned or raised. An exception of the body propagates unless \<^verbatim>\<open>__exit__\<close>
  returns a true value; an exception of \<^verbatim>\<open>__exit__\<close> replaces it.
\<close>

definition with_stmt ::
  "'m run \<Rightarrow> ('m \<Rightarrow> 'v run) \<Rightarrow> ('m \<Rightarrow> exn option \<Rightarrow> bool run) \<Rightarrow> ('v \<Rightarrow> unit run) \<Rightarrow> unit run" where
  "with_stmt mk enter exit body =
     then_run mk (\<lambda>mgr.
     then_run (enter mgr) (\<lambda>v w1.
       (case body v w1 of
          None \<Rightarrow> None
        | Some (Returns u w2) \<Rightarrow> then_run (exit mgr None) (\<lambda>_. ret ()) w2
        | Some (Raises e w2) \<Rightarrow>
            then_run (exit mgr (Some e)) (\<lambda>suppress. if suppress then ret () else raise e) w2)))"

subsection \<open>Paths and strings\<close>

text \<open>\<^verbatim>\<open>posixpath.join\<close>: an absolute component discards what came before it.\<close>

definition join2 :: "string \<Rightarrow> string \<Rightarrow> string" where
  "join2 path b =
     (if b \<noteq> [] \<and> hd b = CHR ''/'' then b
      else if path = [] \<or> last path = CHR ''/'' then path @ b
      else path @ ''/'' @ b)"

definition os_path_join :: "string \<Rightarrow> string list \<Rightarrow> string" where
  "os_path_join a p = foldl join2 a p"

text \<open>
  \<^verbatim>\<open>os.path.expanduser\<close> for the current user, whose home directory \<open>home os\<close> is
  written without a trailing slash: every path the script expands starts with \<^verbatim>\<open>~/\<close>
  or does not start with \<^verbatim>\<open>~\<close>, and the second kind is returned as it is.
\<close>

definition expanduser :: "os_model \<Rightarrow> string \<Rightarrow> string" where
  "expanduser os path =
     (if path = ''~'' \<or> take 2 path = ''~/'' then home os @ tl path else path)"

text \<open>\<^verbatim>\<open>sep.join(xs)\<close>\<close>

fun str_join :: "string \<Rightarrow> string list \<Rightarrow> string" where
  "str_join sep [] = []"
| "str_join sep [x] = x"
| "str_join sep (x # y # ys) = x @ sep @ str_join sep (y # ys)"

definition upper_char :: "char \<Rightarrow> char" where
  "upper_char c =
     (if (97::nat) \<le> of_char c \<and> of_char c \<le> (122::nat)
      then char_of (of_char c - (32::nat)) else c)"

definition str_upper :: "string \<Rightarrow> string" where
  "str_upper s = map upper_char s"

definition BLUE_HOME :: string where
  "BLUE_HOME = ''/home/blue''"

definition DJANGO_SETTINGS_PATH :: string where
  "DJANGO_SETTINGS_PATH = os_path_join BLUE_HOME [''app_config'']"

definition SCRIPT_DIR :: string where
  "SCRIPT_DIR = ''/scripts''"

definition TEMPLATE_PATH :: string where
  "TEMPLATE_PATH = os_path_join BLUE_HOME [''templates'']"

definition VENV :: string where
  "VENV = os_path_join BLUE_HOME [''app'']"

subsection \<open>System calls\<close>

text \<open>
  \<^verbatim>\<open>subprocess.Popen\<close> on a list of strings either returns the handle of the child or
  raises the \<^verbatim>\<open>OSError\<close> of the failed \<^verbatim>\<open>fork\<close> or \<^verbatim>\<open>exec\<close>.
\<close>

definition Popen :: "os_model \<Rightarrow> string list \<Rightarrow> popen_kwargs \<Rightarrow> pid run" where
  "Popen os argv kwargs w =
     (case popen_result os (clock w) argv kwargs of
        Inl errno \<Rightarrow> Some (Raises (OSError errno) (tick w))
      | Inr p \<Rightarrow> Some (Returns p (emit (Spawned argv kwargs p) (tick w))))"

text \<open>\<^verbatim>\<open>Popen.wait()\<close> blocks until the child has exited and returns its status.\<close>

definition Popen_wait :: "os_model \<Rightarrow> pid \<Rightarrow> int run" where
  "Popen_wait os p w =
     (case wait_result os (clock w) p of
        None \<Rightarrow> None
      | Some status \<Rightarrow> Some (Returns status (emit (WaitPid p status) (tick w))))"

definition os_kill :: "os_model \<Rightarrow> pid \<Rightarrow> nat \<Rightarrow> unit run" where
  "os_kill os p sig w =
     (case kill_result os (clock w) p sig of
        Some errno \<Rightarrow> Some (Raises (OSError errno) (tick w))
      | None \<Rightarrow> Some (Returns () (emit (Kill p sig) (tick w))))"

definition SIGTERM :: nat where
  "SIGTERM = 15"

text \<open>\<^verbatim>\<open>Popen.terminate()\<close> sends \<^verbatim>\<open>SIGTERM\<close> to the child with \<^verbatim>\<open>os.kill\<close>.\<close>

definition Popen_terminate :: "os_model \<Rightarrow> pid \<Rightarrow> unit run" where
  "Popen_terminate os p = os_kill os p SIGTERM"

definition signal_getsignal :: "nat \<Rightarrow> handler run" where
  "signal_getsignal sig w = Some (Returns (handlers w sig) w)"

text \<open>\<^verbatim>\<open>signal.signal\<close> installs the handler and returns the old one.\<close>

definition signal_signal :: "nat \<Rightarrow> handler \<Rightarrow> handler run" where
  "signal_signal sig h w =
     Some (Returns (handlers w sig)
             (emit (Signal sig h) (w\<lparr>handlers := (handlers w)(sig := h)\<rparr>)))"

subsection \<open>\<^verbatim>\<open>ChildSubReaper\<close> (lines 50 to 76)\<close>

definition PR_SET_CHILD_SUBREAPER :: nat where
  "PR_SET_CHILD_SUBREAPER = 36"

definition prctl_set_child_sub_reaper :: "bool \<Rightarrow> unit run" where
  "prctl_set_child_sub_reaper activate w =
     Some (Returns ()
       (emit (Prctl PR_SET_CHILD_SUBREAPER (if activate then 1 else 0))
          (w\<lparr>child_subreaper := activate\<rparr>)))"

partial_function (option) wait_for_children :: "os_model \<Rightarrow> world \<Rightarrow> unit outcome option" where
  "wait_for_children os w =
     (case os_wait_result os (clock w) of
        WaitReturns p status \<Rightarrow>
          wait_for_children os
            (emit (LogInfo ''Process #%s terminated with status %s'' [PInt (int p), PInt status])
               (emit (Reaped p status) (tick w)))
      | WaitOSError errno \<Rightarrow>
          Some (Returns () (emit (LogInfo ''All children were terminated.'' []) (tick w)))
      | WaitBlocks \<Rightarrow> None)"

definition CSR_enter :: "unit \<Rightarrow> unit run" where
  "CSR_enter self = prctl_set_child_sub_reaper True"

definition CSR_exit :: "os_model \<Rightarrow> unit \<Rightarrow> exn option \<Rightarrow> bool run" where
  "CSR_exit os self exc =
     then_run (wait_for_children os) (\<lambda>_.
     then_run (prctl_set_child_sub_reaper False) (\<lambda>_.
     ret False))"

subsection \<open>\<^verbatim>\<open>GraceFulShutdown\<close> (lines 79 to 101)\<close>

definition GS_init :: "string list \<Rightarrow> popen_kwargs \<Rightarrow> nat run" where
  "GS_init argv kwargs w =
     Some (Returns (next_ref w)
       (w\<lparr>heap := (heap w)(next_ref w :=
              \<lparr>gs_args = argv, gs_kwargs = kwargs, process = None, old_handler = None\<rparr>),
           next_ref := Suc (next_ref w)\<rparr>))"

definition graceful_shutdown_handler :: "os_model \<Rightarrow> nat \<Rightarrow> nat \<Rightarrow> unit run" where
  "graceful_shutdown_handler os self signal_code w =
     (if signal_code = SIGTERM then
        (case process (heap w self) of
           None \<Rightarrow> Some (Raises AttributeError w)
         | Some p \<Rightarrow> Popen_terminate os p w)
      else Some (Returns () w))"

text \<open>Lines 94 and 95: the old handler is saved and the forwarding handler installed.\<close>

definition GS_enter_install :: "nat \<Rightarrow> unit run" where
  "GS_enter_install self =
     then_run (signal_getsignal SIGTERM) (\<lambda>old.
     then_run (\<lambda>w. Some (Returns () (w\<lparr>heap := (heap w)(self := (heap w self)\<lparr>old_handler := Some old\<rparr>)\<rparr>))) (\<lambda>_.
     then_run (signal_signal SIGTERM (BoundHandler self)) (\<lambda>_.
     ret ())))"

text \<open>Lines 97 and 98: the child is spawned and its handle stored.\<close>

definition GS_enter_spawn :: "os_model \<Rightarrow> nat \<Rightarrow> pid run" where
  "GS_enter_spawn os self =
     then_run (\<lambda>w. Popen os (gs_args (heap w self)) (gs_kwargs (heap w self)) w) (\<lambda>p.
     then_run (\<lambda>w. Some (Returns () (w\<lparr>heap := (heap w)(self := (heap w self)\<lparr>process := Some p\<rparr>)\<rparr>))) (\<lambda>_.
     ret p))"

definition GS_enter :: "os_model \<Rightarrow> nat \<Rightarrow> pid run" where
  "GS_enter os self = then_run (GS_enter_install self) (\<lambda>_. GS_enter_spawn os self)"

text \<open>
  Line 101. \<^verbatim>\<open>signal.signal\<close> refuses \<^verbatim>\<open>None\<close>, the value of \<^verbatim>\<open>old_handler\<close> before
  \<^verbatim>\<open>__enter__\<close> has run, with a \<^verbatim>\<open>TypeError\<close>.
\<close>

definition GS_exit :: "nat \<Rightarrow> exn option \<Rightarrow> bool run" where
  "GS_exit self exc =
     then_run
       (\<lambda>w. case old_handler (heap w self) of
               None \<Rightarrow> Some (Raises TypeError w)
             | Some h \<Rightarrow> signal_signal SIGTERM h w) (\<lambda>_.
     ret False)"

subsection \<open>Templates, context, commands (lines 43 to 151)\<close>

text \<open>
  \<^verbatim>\<open>templatize\<close> opens the destination for writing, then reads the template and
  substitutes the context. Reading and substituting are the model's
  \<open>template_result\<close>; when they raise, the destination is left open and empty.
\<close>

definition templatize :: "os_model \<Rightarrow> string \<Rightarrow> string \<Rightarrow> (string \<times> pyval) list \<Rightarrow> unit run" where
  "templatize os filename destination_path context w =
     (let filename' = os_path_join TEMPLATE_PATH [filename];
          dest = expanduser os destination_path
      in case open_write_error os dest of
           Some e \<Rightarrow> Some (Raises e w)
         | None \<Rightarrow>
             (case template_result os filename' context of
                Inl e \<Rightarrow> Some (Raises e (emit (WroteFile dest [] context) w))
              | Inr text \<Rightarrow> Some (Returns () (emit (WroteFile dest text context) w))))"

text \<open>
  \<^verbatim>\<open>get_host_ip\<close>: the output of \<^verbatim>\<open>ip route show\<close> is searched with a regular
  expression; \<^verbatim>\<open>matched.groups()\<close> on no match is an \<^verbatim>\<open>AttributeError\<close>.
\<close>

definition get_host_ip :: "os_model \<Rightarrow> string run" where
  "get_host_ip os w =
     (case check_output_result os (clock w) [''ip'', ''route'', ''show'', ''0.0.0.0/0''] of
        Inl e \<Rightarrow> Some (Raises e (tick w))
      | Inr output \<Rightarrow>
          (case re_search_via os output of
             None \<Rightarrow>
               Some (Raises AttributeError
                       (emit (CheckOutput [''ip'', ''route'', ''show'', ''0.0.0.0/0'']) (tick w)))
           | Some g \<Rightarrow>
               Some (Returns g
                       (emit (CheckOutput [''ip'', ''route'', ''show'', ''0.0.0.0/0'']) (tick w)))))"

definition environ_get :: "os_model \<Rightarrow> string \<Rightarrow> string run" where
  "environ_get os k = (case environ os k of None \<Rightarrow> raise (KeyError k) | Some v \<Rightarrow> ret v)"

definition get_context :: "os_model \<Rightarrow> (string \<times> pyval) list run" where
  "get_context os =
     then_run (environ_get os ''PYTHON_VERSION'') (\<lambda>python_version.
     (let python_major = takeWhile (\<lambda>c. c \<noteq> CHR ''.'') python_version;
          uwsgi_workers =
            (case environ os ''UWSGI_WORKERS'' of
               None \<Rightarrow> 10
             | Some s \<Rightarrow> (case int_of_str os s of None \<Rightarrow> 10 | Some n \<Rightarrow> n))
      in
     then_run (get_host_ip os) (\<lambda>host_ip.
     (let rsyslog_host = (case environ os ''RSYSLOG_HOST'' of None \<Rightarrow> host_ip | Some h \<Rightarrow> h);
          uwsgi_plugin_name =
            (if python_major = ''3'' then ''python'' @ python_major else ''python'')
      in
     then_run (environ_get os ''PROJECT_NAME'') (\<lambda>project_name.
     ret
       [(''django_config_path'', PStr DJANGO_SETTINGS_PATH),
        (''python_version'', PStr python_version),
        (''project_name'', PStr project_name),
        (''project_name_upper'', PStr (str_upper project_name)),
        (''uwsgi_plugin_name'', PStr uwsgi_plugin_name),
        (''uwsgi_workers'', PInt uwsgi_workers),
        (''rsyslog_host'', PStr rsyslog_host),
        (''venv'', PStr VENV),
        (''http_proxy'', PStr (case environ os ''http_proxy'' of None \<Rightarrow> [] | Some v \<Rightarrow> v)),
        (''https_proxy'', PStr (case environ os ''https_proxy'' of None \<Rightarrow> [] | Some v \<Rightarrow> v)),
        (''no_proxy'', PStr (case environ os ''no_proxy'' of None \<Rightarrow> [] | Some v \<Rightarrow> v))])))))"

text \<open>
  \<^verbatim>\<open>subprocess.check_call\<close>: spawn, wait for the exit status, raise
  \<^verbatim>\<open>CalledProcessError\<close> when it is not zero.
\<close>

definition check_call :: "os_model \<Rightarrow> string list \<Rightarrow> popen_kwargs \<Rightarrow> int run" where
  "check_call os argv kwargs =
     then_run (Popen os argv kwargs) (\<lambda>p.
     then_run (Popen_wait os p) (\<lambda>retcode.
     if retcode \<noteq> 0 then raise (CalledProcessError retcode) else ret 0))"

text \<open>\<^verbatim>\<open>execute\<close> (lines 117 to 123): only \<^verbatim>\<open>CalledProcessError\<close> is caught.\<close>

definition execute :: "os_model \<Rightarrow> string list \<Rightarrow> popen_kwargs \<Rightarrow> unit run" where
  "execute os args kwargs =
     then_run (log_info ''-> running %s'' [PStr (str_join '' '' args)]) (\<lambda>_ w.
       (case check_call os args kwargs w of
          None \<Rightarrow> None
        | Some (Returns _ w') \<Rightarrow> Some (Returns () w')
        | Some (Raises (CalledProcessError _) w') \<Rightarrow> Some (Returns () w')
        | Some (Raises e w') \<Rightarrow> Some (Raises e w')))"

definition no_kwargs :: popen_kwargs where
  "no_kwargs = \<lparr>kw_cwd = None, kw_env = None\<rparr>"

subsection \<open>The launchers and \<^verbatim>\<open>dispatch\<close> (lines 286 to 328)\<close>

definition run_shell :: "os_model \<Rightarrow> string list \<Rightarrow> unit run" where
  "run_shell os args =
     (case args of
        [] \<Rightarrow> raise IndexError
      | a0 # rest \<Rightarrow>
          (let script_path = os_path_join SCRIPT_DIR [a0];
               args' = (if path_exists os script_path then script_path # rest else args)
           in
          then_run (log_info ''running %s'' [PStr (str_join '' '' args')]) (\<lambda>_.
          then_run (Popen os args' \<lparr>kw_cwd = Some SCRIPT_DIR, kw_env = None\<rparr>) (\<lambda>process.
          then_run (Popen_wait os process) (\<lambda>_.
          ret ())))))"

definition start_service :: "os_model \<Rightarrow> string \<Rightarrow> string list \<Rightarrow> unit run" where
  "start_service os command args =
     then_run (get_context os) (\<lambda>context0.
     (case args of
        [] \<Rightarrow> raise IndexError
      | service # _ \<Rightarrow>
          (let context = AList.update ''service'' (PStr service) context0 in
          then_run (templatize os ''uwsgi.ini'' (os_path_join ''~'' [''etc'', ''uwsgi.ini'']) context) (\<lambda>_.
          then_run (templatize os ''nginx.conf'' (os_path_join ''~'' [''etc'', ''nginx.conf'']) context) (\<lambda>_.
          (let supervisord_config = expanduser os (os_path_join ''~'' [''etc'', ''supervisord.conf'']) in
          then_run (templatize os ''supervisord.conf'' supervisord_config context) (\<lambda>_.
          execute os [''supervisord'', ''-c'', supervisord_config] no_kwargs)))))))"

definition run_cron :: "os_model \<Rightarrow> string \<Rightarrow> string list \<Rightarrow> unit run" where
  "run_cron os command args =
     (let cron_daemon_env =
            [(''TZ'', (case environ os ''GROCKER_CRON_TZ'' of None \<Rightarrow> ''UTC'' | Some tz \<Rightarrow> tz))];
          cron_daemon_cmd = [''sudo'', ''cron'', ''-f'']
      in
     with_stmt (ret ()) CSR_enter (CSR_exit os) (\<lambda>_.
       then_run (log_info ''-> running cron daemon...'' []) (\<lambda>_.
       with_stmt (GS_init cron_daemon_cmd \<lparr>kw_cwd = None, kw_env = Some cron_daemon_env\<rparr>)
         (GS_enter os) GS_exit (\<lambda>p.
           then_run (Popen_wait os p) (\<lambda>_. ret ())))))"

datatype launcher = RunCron | StartService | RunShell

definition service_mapping :: "(string \<times> launcher) list" where
  "service_mapping = [(''cron'', RunCron), (''start'', StartService)]"

text \<open>
  The call \<^verbatim>\<open>fn(*args)\<close>: \<^verbatim>\<open>run_cron\<close> and \<^verbatim>\<open>start_service\<close> bind the first element to
  \<^verbatim>\<open>command\<close> and the others to \<^verbatim>\<open>*args\<close>; a call with no element is a \<^verbatim>\<open>TypeError\<close>.
  \<^verbatim>\<open>run_shell\<close> takes the whole vector as \<^verbatim>\<open>*args\<close>.
\<close>

definition call_launcher :: "os_model \<Rightarrow> launcher \<Rightarrow> string list \<Rightarrow> unit run" where
  "call_launcher os fn args =
     (case fn of
        RunShell \<Rightarrow> run_shell os args
      | RunCron \<Rightarrow> (case args of [] \<Rightarrow> raise TypeError | command # rest \<Rightarrow> run_cron os command rest)
      | StartService \<Rightarrow>
          (case args of [] \<Rightarrow> raise TypeError | command # rest \<Rightarrow> start_service os command rest))"

text \<open>The launcher \<^verbatim>\<open>dispatch\<close> selects: lines 326 and 327.\<close>

definition selected :: "string list \<Rightarrow> launcher \<times> string list" where
  "selected args =
     (let args' = (if args = [] then [''/bin/bash''] else args);
          fn = (case map_of service_mapping (hd args') of None \<Rightarrow> RunShell | Some f \<Rightarrow> f)
      in (fn, args'))"

definition dispatch :: "os_model \<Rightarrow> string list \<Rightarrow> unit run" where
  "dispatch os args = (case selected args of (fn, args') \<Rightarrow> call_launcher os fn args')"

text \<open>
  The script ends with \<^verbatim>\<open>dispatch(args.args)\<close> as the last statement of \<^verbatim>\<open>main()\<close> and
  never calls \<^verbatim>\<open>sys.exit\<close>: the interpreter exits with status 0 when \<^verbatim>\<open>main\<close> returns
  and with status 1 when an exception reaches the top level.
\<close>

definition exit_status :: "unit outcome option \<Rightarrow> int option" where
  "exit_status r =
     (case r of None \<Rightarrow> None | Some (Returns _ _) \<Rightarrow> Some 0 | Some (Raises _ _) \<Rightarrow> Some 1)"

subsection \<open>Vocabulary of the statements\<close>

text \<open>
  What one answer of \<^verbatim>\<open>os.wait()\<close> adds to the trace inside the drain loop, and what the
  \<open>n\<close> answers from clock \<open>c\<close> on add.
\<close>

fun reap_events :: "os_wait_outcome \<Rightarrow> event list" where
  "reap_events (WaitReturns p status) =
     [Reaped p status,
      LogInfo ''Process #%s terminated with status %s'' [PInt (int p), PInt status]]"
| "reap_events (WaitOSError errno) = []"
| "reap_events WaitBlocks = []"

fun drain_events :: "os_model \<Rightarrow> nat \<Rightarrow> nat \<Rightarrow> event list" where
  "drain_events os c 0 = []"
| "drain_events os c (Suc n) = reap_events (os_wait_result os c) @ drain_events os (Suc c) n"

fun is_reap :: "os_wait_outcome \<Rightarrow> bool" where
  "is_reap (WaitReturns p status) = True"
| "is_reap (WaitOSError errno) = False"
| "is_reap WaitBlocks = False"

text \<open>The first \<open>n\<close> answers of \<^verbatim>\<open>os.wait()\<close> from clock \<open>c\<close> on are reaped children.\<close>

fun reaps :: "os_model \<Rightarrow> nat \<Rightarrow> nat \<Rightarrow> bool" where
  "reaps os c 0 = True"
| "reaps os c (Suc n) = (is_reap (os_wait_result os c) \<and> reaps os (Suc c) n)"

text \<open>
  What happens inside a \<^verbatim>\<open>GraceFulShutdown\<close> scope, between \<^verbatim>\<open>__enter__\<close> and
  \<^verbatim>\<open>__exit__\<close>: the interpreter runs the installed handler of the object \<open>self\<close> for a
  delivered signal, or the body waits for the child \<open>p\<close>. A signal handler runs in the
  main thread, so an exception it raises ends the body like any other.
\<close>

datatype activity = Delivered nat | ChildWait

fun in_scope :: "os_model \<Rightarrow> nat \<Rightarrow> pid \<Rightarrow> activity list \<Rightarrow> unit run" where
  "in_scope os self p [] = ret ()"
| "in_scope os self p (Delivered signal_code # acts) =
     then_run (graceful_shutdown_handler os self signal_code) (\<lambda>_. in_scope os self p acts)"
| "in_scope os self p (ChildWait # acts) =
     then_run (Popen_wait os p) (\<lambda>_. in_scope os self p acts)"

definition world_of :: "'a outcome \<Rightarrow> world" where
  "world_of out = (case out of Returns _ w \<Rightarrow> w | Raises _ w \<Rightarrow> w)"

definition exc_of :: "'a outcome \<Rightarrow> exn option" where
  "exc_of out = (case out of Returns _ _ \<Rightarrow> None | Raises e _ \<Rightarrow> Some e)"

text \<open>The termination signals the trace shows delivered to the child \<open>p\<close>.\<close>

definition sigterms_sent :: "pid \<Rightarrow> world \<Rightarrow> nat" where
  "sigterms_sent p w = length (filter (\<lambda>ev. ev = Kill p SIGTERM) (trace w))"

subsection \<open>Concrete runs\<close>

text \<open>
  A freshly started interpreter, and an operating system in which every spawn succeeds
  (the child spawned at clock \<open>c\<close> has the pid \<open>100 + c\<close>), every child exits with
  status 0, there is no child left to reap (\<^verbatim>\<open>ECHILD\<close> is errno 10), every signal is
  delivered, and no file of the scripts directory exists.
\<close>

definition world0 :: world where
  "world0 =
     \<lparr>clock = 0, trace = [], handlers = (\<lambda>_. SIG_DFL), child_subreaper = False,
      heap = (\<lambda>_. \<lparr>gs_args = [], gs_kwargs = no_kwargs, process = None, old_handler = None\<rparr>),
      next_ref = 0\<rparr>"

definition os_base :: os_model where
  "os_base =
     \<lparr>popen_result = (\<lambda>c argv kwargs. Inr (100 + c)),
      wait_result = (\<lambda>c p. Some 0),
      os_wait_result = (\<lambda>c. WaitOSError 10),
      kill_result = (\<lambda>c p sig. None),
      path_exists = (\<lambda>path. False),
      environ = (\<lambda>k. if k = ''PYTHON_VERSION'' then Some ''2.7''
                      else if k = ''PROJECT_NAME'' then Some ''blue'' else None),
      home = ''/home/blue'',
      check_output_result = (\<lambda>c argv. Inr ''default via 172.17.0.1 dev eth0 ''),
      re_search_via = (\<lambda>output. Some ''172.17.0.1''),
      int_of_str = (\<lambda>s. None),
      open_write_error = (\<lambda>path. None),
      template_result = (\<lambda>filename context. Inr ''rendered'')\<rparr>"

text \<open>
  The world after \<^verbatim>\<open>ChildSubReaper.__exit__\<close> has run from \<open>w\<close> and reaped \<open>n\<close>
  children: the clock has advanced by \<open>n + 1\<close> calls of \<^verbatim>\<open>os.wait()\<close>.
\<close>

definition drained :: "os_model \<Rightarrow> nat \<Rightarrow> world \<Rightarrow> world" where
  "drained os n w =
     w\<lparr>clock := clock w + n + 1,
       trace := trace w @ drain_events os (clock w) n @
                [LogInfo ''All children were terminated.'' [], Prctl PR_SET_CHILD_SUBREAPER 0],
       child_subreaper := False\<rparr>"

text \<open>
  Two children are left to reap, then \<^verbatim>\<open>os.wait()\<close> fails with the given errno
  (\<^verbatim>\<open>ECHILD\<close> is 10, \<^verbatim>\<open>EINTR\<close> is 4).
\<close>

definition os_two_children :: "nat \<Rightarrow> os_model" where
  "os_two_children errno =
     os_base\<lparr>os_wait_result :=
       (\<lambda>c. if c = 0 then WaitReturns 7 0 else if c = 1 then WaitReturns 8 256
             else WaitOSError errno)\<rparr>"

text \<open>No executable can be started: every spawn fails with \<^verbatim>\<open>ENOENT\<close> (errno 2).\<close>

definition os_spawn_fails :: os_model where
  "os_spawn_fails = os_base\<lparr>popen_result := (\<lambda>c argv kwargs. Inl 2)\<rparr>"

text \<open>
  \<^verbatim>\<open>os.kill\<close> fails with \<^verbatim>\<open>ESRCH\<close> (errno 3) from clock 3 on: the child is gone by then.
\<close>

definition os_kill_dead :: os_model where
  "os_kill_dead = os_base\<lparr>kill_result := (\<lambda>c p sig. if 3 \<le> c then Some 3 else None)\<rparr>"

text \<open>The keyword arguments of the cron daemon's spawn when \<^verbatim>\<open>GROCKER_CRON_TZ\<close> is not set.\<close>

definition cron_kwargs :: popen_kwargs where
  "cron_kwargs = \<lparr>kw_cwd = None, kw_env = Some [(''TZ'', ''UTC'')]\<rparr>"

text \<open>The keyword arguments \<^verbatim>\<open>run_cron\<close> passes to the spawn of the cron daemon (line 312).\<close>

definition cron_daemon_kwargs :: "os_model \<Rightarrow> popen_kwargs" where
  "cron_daemon_kwargs os =
     \<lparr>kw_cwd = None,
      kw_env = Some [(''TZ'', (case environ os ''GROCKER_CRON_TZ'' of None \<Rightarrow> ''UTC'' | Some tz \<Rightarrow> tz))]\<rparr>"

text \<open>
  The cron daemon has left two jobs behind: \<^verbatim>\<open>os.wait()\<close> reaps them at clocks 2 and 3,
  then fails with \<^verbatim>\<open>ECHILD\<close>.
\<close>

definition os_cron_jobs :: os_model where
  "os_cron_jobs =
     os_base\<lparr>os_wait_result :=
       (\<lambda>c. if c = 2 then WaitReturns 201 0 else if c = 3 then WaitReturns 202 0
             else WaitOSError 10)\<rparr>"

text \<open>The scripts directory holds one file, \<^verbatim>\<open>foo\<close>.\<close>

definition os_with_foo :: os_model where
  "os_with_foo = os_base\<lparr>path_exists := (\<lambda>path. path = ''/scripts/foo'')\<rparr>"

text \<open>Every child exits with status 3.\<close>

definition os_exit3 :: os_model where
  "os_exit3 = os_base\<lparr>wait_result := (\<lambda>c p. Some 3)\<rparr>"

text \<open>No child ever exits: the process that \<^verbatim>\<open>supervisord -c\<close> starts keeps running.\<close>

definition os_daemon_stays :: os_model where
  "os_daemon_stays = os_base\<lparr>wait_result := (\<lambda>c p. None)\<rparr>"

text \<open>
  The context \<^verbatim>\<open>start_service\<close> renders from, for the service \<^verbatim>\<open>app\<close> under \<open>os_base\<close>.
\<close>

definition context_app :: "(string \<times> pyval) list" where
  "context_app =
     [(''django_config_path'', PStr ''/home/blue/app_config''),
      (''python_version'', PStr ''2.7''),
      (''project_name'', PStr ''blue''),
      (''project_name_upper'', PStr ''BLUE''),
      (''uwsgi_plugin_name'', PStr ''python''),
      (''uwsgi_workers'', PInt 10),
      (''rsyslog_host'', PStr ''172.17.0.1''),
      (''venv'', PStr ''/home/blue/app''),
      (''http_proxy'', PStr []),
      (''https_proxy'', PStr []),
      (''no_proxy'', PStr []),
      (''service'', PStr ''app'')]"

section \<open>Properties\<close>

subsection \<open>The drain loop\<close>

lemma wait_for_children_drains:
  "reaps os (clock w) n \<Longrightarrow> os_wait_result os (clock w + n) = WaitOSError errno \<Longrightarrow>
   wait_for_children os w =
     Some (Returns ()
       (w\<lparr>clock := clock w + n + 1,
          trace := trace w @ drain_events os (clock w) n @ [LogInfo ''All children were terminated.'' []]\<rparr>))"
proof (induction n arbitrary: w)
  case 0
  then show ?case
    by (subst wait_for_children.simps) (simp add: emit_def tick_def)
next
  case (Suc n)
  from Suc.prems(1) obtain p st where r: "os_wait_result os (clock w) = WaitReturns p st"
    and rest: "reaps os (Suc (clock w)) n"
    by (cases "os_wait_result os (clock w)") auto
  let ?w1 = "emit (LogInfo ''Process #%s terminated with status %s'' [PInt (int p), PInt st])
               (emit (Reaped p st) (tick w))"
  have c1: "clock ?w1 = Suc (clock w)" by (simp add: emit_def tick_def)
  have "wait_for_children os w = wait_for_children os ?w1"
    by (subst wait_for_children.simps) (simp add: r)
  also have "\<dots> = Some (Returns ()
       (?w1\<lparr>clock := clock ?w1 + n + 1,
          trace := trace ?w1 @ drain_events os (clock ?w1) n @ [LogInfo ''All children were terminated.'' []]\<rparr>))"
    using rest Suc.prems(2) by (intro Suc.IH) (simp_all add: c1)
  also have "\<dots> = Some (Returns ()
       (w\<lparr>clock := clock w + Suc n + 1,
          trace := trace w @ drain_events os (clock w) (Suc n) @ [LogInfo ''All children were terminated.'' []]\<rparr>))"
    by (simp add: emit_def tick_def r)
  finally show ?case .
qed

lemma CSR_exit_run:
  assumes "reaps os (clock w) n" and "os_wait_result os (clock w + n) = WaitOSError errno"
  shows "CSR_exit os self exc w = Some (Returns False (drained os n w))"
  using wait_for_children_drains [OF assms]
  by (simp add: CSR_exit_def then_run_def prctl_set_child_sub_reaper_def ret_def emit_def drained_def)

text \<open>
  C4. \<^verbatim>\<open>ChildSubReaper.__exit__\<close> waits for any child again and again. When the first \<open>n\<close>
  answers of \<^verbatim>\<open>os.wait()\<close> are reaped children and the next one is an \<^verbatim>\<open>OSError\<close>, of
  whatever errno, it returns: the trace has gained, for each reaped child in turn, the
  log line with its pid and status, then the closing log line, and last of all the
  \<^verbatim>\<open>prctl\<close> call that unsets the subreaper flag. The errno does not occur in the result, so
  \<^verbatim>\<open>ECHILD\<close> and any other failure end the loop in the same way; \<open>n = 0\<close> is the case of
  no reapable child at all.
\<close>

theorem CSR_exit_drains_then_unsets:
  assumes "reaps os (clock w) n" and "os_wait_result os (clock w + n) = WaitOSError errno"
  shows "CSR_exit os self exc w =
           Some (Returns False
             (w\<lparr>clock := clock w + n + 1,
                trace := trace w @ drain_events os (clock w) n @
                  [LogInfo ''All children were terminated.'' [], Prctl PR_SET_CHILD_SUBREAPER 0],
                child_subreaper := False\<rparr>))"
  using CSR_exit_run [OF assms] by (simp add: drained_def)

theorem CSR_exit_drains_then_unsets_witness:
  "CSR_exit (os_two_children 4) () None world0 =
     Some (Returns False
       \<lparr>clock = 3,
        trace = [Reaped 7 0, LogInfo ''Process #%s terminated with status %s'' [PInt 7, PInt 0],
                 Reaped 8 256, LogInfo ''Process #%s terminated with status %s'' [PInt 8, PInt 256],
                 LogInfo ''All children were terminated.'' [], Prctl 36 0],
        handlers = (\<lambda>_. SIG_DFL), child_subreaper = False,
        heap = (\<lambda>_. \<lparr>gs_args = [], gs_kwargs = no_kwargs, process = None, old_handler = None\<rparr>),
        next_ref = 0\<rparr>)
   \<and> CSR_exit (os_two_children 10) () None world0 = CSR_exit (os_two_children 4) () None world0
   \<and> CSR_exit os_base () None world0 =
     Some (Returns False
       (world0\<lparr>clock := 1, trace := [LogInfo ''All children were terminated.'' [], Prctl 36 0]\<rparr>))"
  using CSR_exit_drains_then_unsets [of "os_two_children 4" world0 2 4 "()" None]
    CSR_exit_drains_then_unsets [of "os_two_children 10" world0 2 10 "()" None]
    CSR_exit_drains_then_unsets [of os_base world0 0 10 "()" None]
  by (simp add: os_two_children_def os_base_def world0_def PR_SET_CHILD_SUBREAPER_def numeral_2_eq_2)

subsection \<open>The subreaper scope when its body raises\<close>

lemma with_ChildSubReaper_raises:
  assumes "body () (emit (Prctl PR_SET_CHILD_SUBREAPER 1) (w\<lparr>child_subreaper := True\<rparr>)) = Some (Raises e w2)"
    and "reaps os (clock w2) n" and "os_wait_result os (clock w2 + n) = WaitOSError errno"
  shows "with_stmt (ret ()) CSR_enter (CSR_exit os) body w = Some (Raises e (drained os n w2))"
  using assms(1) CSR_exit_run [OF assms(2,3), of "()" "Some e"]
  by (simp add: with_stmt_def then_run_def ret_def raise_def CSR_enter_def prctl_set_child_sub_reaper_def)

text \<open>
  C10. In \<^verbatim>\<open>with ChildSubReaper(): body\<close>, when the body raises \<open>e\<close> in the world \<open>w2\<close>
  (the body starts in the world that \<^verbatim>\<open>__enter__\<close> leaves, with the flag set) and the
  drain loop ends after \<open>n\<close> reaped children, the statement raises the same \<open>e\<close>, and the
  world in which it propagates has the drain loop's log lines and the \<^verbatim>\<open>prctl\<close> call that
  unsets the flag after everything the body did. The witness is \<^verbatim>\<open>run_cron\<close> when the
  spawn of the cron daemon fails inside the nested scope.
\<close>

theorem ChildSubReaper_cleans_up_when_body_raises:
  assumes "body () (emit (Prctl PR_SET_CHILD_SUBREAPER 1) (w\<lparr>child_subreaper := True\<rparr>)) = Some (Raises e w2)"
    and "reaps os (clock w2) n" and "os_wait_result os (clock w2 + n) = WaitOSError errno"
  shows "with_stmt (ret ()) CSR_enter (CSR_exit os) body w =
           Some (Raises e
             (w2\<lparr>clock := clock w2 + n + 1,
                 trace := trace w2 @ drain_events os (clock w2) n @
                   [LogInfo ''All children were terminated.'' [], Prctl PR_SET_CHILD_SUBREAPER 0],
                 child_subreaper := False\<rparr>))"
  using with_ChildSubReaper_raises [of body w e w2 os n errno, OF assms] by (simp add: drained_def)

theorem ChildSubReaper_cleans_up_when_body_raises_witness:
  "\<exists>w'. run_cron os_spawn_fails ''cron'' [] world0 = Some (Raises (OSError 2) w')
      \<and> trace w' =
          [Prctl 36 1, LogInfo ''-> running cron daemon...'' [], Signal 15 (BoundHandler 0),
           LogInfo ''All children were terminated.'' [], Prctl 36 0]
      \<and> child_subreaper w' = False"
proof -
  let ?kw = "\<lparr>kw_cwd = None, kw_env = Some [(''TZ'', ''UTC'')]\<rparr>"
  let ?body = "\<lambda>_::unit. then_run (log_info ''-> running cron daemon...'' []) (\<lambda>_.
       with_stmt (GS_init [''sudo'', ''cron'', ''-f''] ?kw)
         (GS_enter os_spawn_fails) GS_exit (\<lambda>p.
           then_run (Popen_wait os_spawn_fails p) (\<lambda>_. ret ())))"
  let ?w2 = "\<lparr>clock = 1,
        trace = [Prctl 36 1, LogInfo ''-> running cron daemon...'' [], Signal 15 (BoundHandler 0)],
        handlers = (\<lambda>_. SIG_DFL)(15 := BoundHandler 0), child_subreaper = True,
        heap = (\<lambda>_. \<lparr>gs_args = [], gs_kwargs = no_kwargs, process = None, old_handler = None\<rparr>)
                 (0 := \<lparr>gs_args = [''sudo'', ''cron'', ''-f''], gs_kwargs = ?kw, process = None,
                        old_handler = Some SIG_DFL\<rparr>),
        next_ref = 1\<rparr>"
  have b: "?body () (emit (Prctl PR_SET_CHILD_SUBREAPER 1) (world0\<lparr>child_subreaper := True\<rparr>))
             = Some (Raises (OSError 2) ?w2)"
    by (simp add: then_run_def log_info_def with_stmt_def GS_init_def GS_enter_def
        GS_enter_install_def GS_enter_spawn_def signal_getsignal_def signal_signal_def Popen_def
        ret_def emit_def tick_def world0_def os_spawn_fails_def os_base_def SIGTERM_def
        PR_SET_CHILD_SUBREAPER_def)
  have r: "reaps os_spawn_fails (clock ?w2) 0" by simp
  have e: "os_wait_result os_spawn_fails (clock ?w2 + 0) = WaitOSError 10"
    by (simp add: os_spawn_fails_def os_base_def)
  have c: "run_cron os_spawn_fails ''cron'' [] world0 =
       with_stmt (ret ()) CSR_enter (CSR_exit os_spawn_fails) ?body world0"
    by (simp add: run_cron_def os_spawn_fails_def os_base_def)
  show ?thesis
    unfolding c
      ChildSubReaper_cleans_up_when_body_raises [of ?body world0 "OSError 2" ?w2 os_spawn_fails 0 10, OF b r e]
    by (simp add: PR_SET_CHILD_SUBREAPER_def)
qed

subsection \<open>Dispatch\<close>

text \<open>
  C1. \<^verbatim>\<open>dispatch\<close> makes one call, of the launcher \<open>selected\<close> names. For the empty
  vector it is \<^verbatim>\<open>run_shell('/bin/bash')\<close>; for a vector that starts with \<^verbatim>\<open>cron\<close> it is
  \<^verbatim>\<open>run_cron\<close>; for one that starts with \<^verbatim>\<open>start\<close> it is \<^verbatim>\<open>start_service\<close>, which
  receives the elements after \<^verbatim>\<open>start\<close> as \<^verbatim>\<open>*args\<close> (the first of them is the service
  name it reads); for any other first element it is \<^verbatim>\<open>run_shell\<close> on the whole vector.
\<close>

theorem dispatch_selects:
  "dispatch os args = call_launcher os (fst (selected args)) (snd (selected args))
   \<and> dispatch os [] = run_shell os [''/bin/bash'']
   \<and> dispatch os (''cron'' # rest) = run_cron os ''cron'' rest
   \<and> dispatch os (''start'' # rest) = start_service os ''start'' rest
   \<and> (a \<noteq> ''cron'' \<longrightarrow> a \<noteq> ''start'' \<longrightarrow> dispatch os (a # rest) = run_shell os (a # rest))"
  by (simp add: dispatch_def selected_def service_mapping_def call_launcher_def)

theorem dispatch_selects_witness:
  "dispatch os_base [] = run_shell os_base [''/bin/bash'']
   \<and> dispatch os_base [''cron''] = run_cron os_base ''cron'' []
   \<and> dispatch os_base [''start'', ''app''] = start_service os_base ''start'' [''app'']
   \<and> ''migrate'' \<noteq> ''cron'' \<and> ''migrate'' \<noteq> ''start''
   \<and> dispatch os_base [''migrate''] = run_shell os_base [''migrate'']"
  using dispatch_selects [of os_base "[]" "[]" "''migrate''"]
    dispatch_selects [of os_base "[]" "[''app'']" "''migrate''"]
  by simp

subsection \<open>The signal-forwarding scope\<close>

lemma then_run_Some:
  "then_run m f w = Some out \<Longrightarrow>
     (\<exists>e w'. m w = Some (Raises e w') \<and> out = Raises e w')
     \<or> (\<exists>a w'. m w = Some (Returns a w') \<and> f a w' = Some out)"
  by (auto simp: then_run_def split: option.splits outcome.splits)

lemma handler_frame:
  "graceful_shutdown_handler os self sig w = Some out \<Longrightarrow>
     heap (world_of out) = heap w \<and> handlers (world_of out) = handlers w"
  by (auto simp: graceful_shutdown_handler_def Popen_terminate_def os_kill_def world_of_def
      emit_def tick_def split: if_splits option.splits)

lemma Popen_wait_frame:
  "Popen_wait os p w = Some out \<Longrightarrow>
     heap (world_of out) = heap w \<and> handlers (world_of out) = handlers w"
  by (auto simp: Popen_wait_def world_of_def emit_def tick_def split: option.splits)

lemma in_scope_frame:
  "in_scope os self p acts w = Some out \<Longrightarrow>
     heap (world_of out) = heap w \<and> handlers (world_of out) = handlers w"
proof (induction acts arbitrary: w)
  case Nil
  then show ?case by (auto simp: ret_def world_of_def)
next
  case (Cons a acts)
  show ?case
  proof (cases a)
    case (Delivered sig)
    with Cons.prems have
      "then_run (graceful_shutdown_handler os self sig) (\<lambda>_. in_scope os self p acts) w = Some out"
      by simp
    from then_run_Some [OF this] show ?thesis
    proof (elim disjE exE conjE)
      fix e w' assume "graceful_shutdown_handler os self sig w = Some (Raises e w')" "out = Raises e w'"
      then show ?thesis using handler_frame [of os self sig w "Raises e w'"] by simp
    next
      fix u w' assume h: "graceful_shutdown_handler os self sig w = Some (Returns u w')"
        and r: "in_scope os self p acts w' = Some out"
      from handler_frame [OF h] Cons.IH [OF r] show ?thesis by (simp add: world_of_def)
    qed
  next
    case ChildWait
    with Cons.prems have
      "then_run (Popen_wait os p) (\<lambda>_. in_scope os self p acts) w = Some out"
      by simp
    from then_run_Some [OF this] show ?thesis
    proof (elim disjE exE conjE)
      fix e w' assume "Popen_wait os p w = Some (Raises e w')" "out = Raises e w'"
      then show ?thesis using Popen_wait_frame [of os p w "Raises e w'"] by (simp add: world_of_def)
    next
      fix u w' assume h: "Popen_wait os p w = Some (Returns u w')"
        and r: "in_scope os self p acts w' = Some out"
      from Popen_wait_frame [OF h] Cons.IH [OF r] show ?thesis by (simp add: world_of_def)
    qed
  qed
qed

lemma GS_init_result:
  "GS_init argv kwargs w0 = Some (Returns self w) \<Longrightarrow>
     handlers w = handlers w0 \<and> process (heap w self) = None \<and> clock w = clock w0 \<and> trace w = trace w0"
  by (auto simp: GS_init_def)

lemma GS_enter_install_result:
  "GS_enter_install self w = Some (Returns () w1) \<longleftrightarrow>
     w1 = emit (Signal SIGTERM (BoundHandler self))
            (w\<lparr>heap := (heap w)(self := (heap w self)\<lparr>old_handler := Some (handlers w SIGTERM)\<rparr>),
               handlers := (handlers w)(SIGTERM := BoundHandler self)\<rparr>)"
  by (auto simp: GS_enter_install_def then_run_def signal_getsignal_def signal_signal_def ret_def emit_def)

lemma GS_enter_result:
  assumes "GS_enter os self w = Some (Returns p w1)"
  shows "old_handler (heap w1 self) = Some (handlers w SIGTERM)"
    and "handlers w1 = (handlers w)(SIGTERM := BoundHandler self)"
    and "process (heap w1 self) = Some p"
  using assms
  by (auto simp: GS_enter_def GS_enter_install_def GS_enter_spawn_def then_run_def
      signal_getsignal_def signal_signal_def Popen_def ret_def emit_def tick_def
      split: sum.splits)

text \<open>
  C3. A \<^verbatim>\<open>GraceFulShutdown\<close> object is built with any command vector and keyword
  arguments, \<^verbatim>\<open>__enter__\<close> returns the child, and the scope sees any sequence of handler
  runs and waits for the child, ending normally or with an exception (of the handler,
  when \<^verbatim>\<open>os.kill\<close> fails on a child that is gone). Then \<^verbatim>\<open>__exit__\<close> returns, and the
  handler table it leaves is the table from before the scope: its last effect is the
  \<^verbatim>\<open>signal.signal\<close> call that puts the saved handler back.
\<close>

theorem GraceFulShutdown_exit_restores_handler:
  assumes init: "GS_init argv kwargs w0 = Some (Returns self w)"
    and enter: "GS_enter os self w = Some (Returns p w1)"
    and body: "in_scope os self p acts w1 = Some out"
  shows "\<exists>w3. GS_exit self (exc_of out) (world_of out) = Some (Returns False w3)
           \<and> handlers w3 = handlers w0
           \<and> trace w3 = trace (world_of out) @ [Signal SIGTERM (handlers w0 SIGTERM)]"
proof -
  from in_scope_frame [OF body] GS_enter_result(1,2) [OF enter]
  have "old_handler (heap (world_of out) self) = Some (handlers w SIGTERM)"
    and "handlers (world_of out) = (handlers w)(SIGTERM := BoundHandler self)"
    by simp_all
  moreover from GS_init_result [OF init] have "handlers w = handlers w0" by simp
  ultimately show ?thesis
    by (simp add: GS_exit_def then_run_def signal_signal_def ret_def emit_def)
qed


lemmas run_defs =
  then_run_def ret_def raise_def emit_def tick_def log_info_def
  GS_init_def GS_enter_def GS_enter_install_def GS_enter_spawn_def GS_exit_def
  graceful_shutdown_handler_def Popen_terminate_def os_kill_def Popen_def Popen_wait_def
  signal_getsignal_def signal_signal_def SIGTERM_def world_of_def exc_of_def

theorem GraceFulShutdown_exit_restores_handler_witness:
  "\<exists>self w p w1 out w3.
     GS_init [''sudo'', ''cron'', ''-f''] cron_kwargs world0 = Some (Returns self w)
     \<and> GS_enter os_kill_dead self w = Some (Returns p w1)
     \<and> in_scope os_kill_dead self p [Delivered 15, ChildWait, Delivered 15] w1 = Some out
     \<and> exc_of out = Some (OSError 3)
     \<and> GS_exit self (exc_of out) (world_of out) = Some (Returns False w3)
     \<and> handlers w3 = handlers world0"
proof -
  define w where "w = world_of (the (GS_init [''sudo'', ''cron'', ''-f''] cron_kwargs world0))"
  have init: "GS_init [''sudo'', ''cron'', ''-f''] cron_kwargs world0 = Some (Returns 0 w)"
    unfolding w_def by (simp add: run_defs world0_def)
  define w1 where "w1 = world_of (the (GS_enter os_kill_dead 0 w))"
  have enter: "GS_enter os_kill_dead 0 w = Some (Returns 100 w1)"
    unfolding w1_def w_def by (simp add: run_defs world0_def os_kill_dead_def os_base_def)
  define out where "out = the (in_scope os_kill_dead 0 100 [Delivered 15, ChildWait, Delivered 15] w1)"
  have body: "in_scope os_kill_dead 0 100 [Delivered 15, ChildWait, Delivered 15] w1 = Some out"
    unfolding out_def w1_def w_def by (simp add: run_defs world0_def os_kill_dead_def os_base_def)
  have exc: "exc_of out = Some (OSError 3)"
    unfolding out_def w1_def w_def by (simp add: run_defs world0_def os_kill_dead_def os_base_def)
  from GraceFulShutdown_exit_restores_handler [OF init enter body]
  obtain w3 where "GS_exit 0 (exc_of out) (world_of out) = Some (Returns False w3)"
    and "handlers w3 = handlers world0" by blast
  with init enter body exc show ?thesis by blast
qed

lemma handler_with_child:
  assumes "process (heap w self) = Some p" and "kill_result os (clock w) p SIGTERM = None"
  shows "graceful_shutdown_handler os self SIGTERM w = Some (Returns () (emit (Kill p SIGTERM) (tick w)))"
  using assms by (simp add: graceful_shutdown_handler_def Popen_terminate_def os_kill_def)

lemma deliveries_forwarded:
  assumes "process (heap w self) = Some p" and "\<forall>k<n. kill_result os (clock w + k) p SIGTERM = None"
  shows "in_scope os self p (replicate n (Delivered SIGTERM)) w =
           Some (Returns () (w\<lparr>clock := clock w + n, trace := trace w @ replicate n (Kill p SIGTERM)\<rparr>))"
  using assms
proof (induction n arbitrary: w)
  case 0
  then show ?case by (simp add: ret_def)
next
  case (Suc n)
  let ?w1 = "emit (Kill p SIGTERM) (tick w)"
  from Suc.prems(2) have k0: "kill_result os (clock w) p SIGTERM = None" by force
  have h: "graceful_shutdown_handler os self SIGTERM w = Some (Returns () ?w1)"
    by (rule handler_with_child [OF Suc.prems(1) k0])
  have p1: "process (heap ?w1 self) = Some p" using Suc.prems(1) by (simp add: emit_def tick_def)
  have k1: "\<forall>k<n. kill_result os (clock ?w1 + k) p SIGTERM = None"
    using Suc.prems(2) by (auto simp: emit_def tick_def)
  have "in_scope os self p (replicate (Suc n) (Delivered SIGTERM)) w
          = in_scope os self p (replicate n (Delivered SIGTERM)) ?w1"
    by (simp add: then_run_def h)
  also note Suc.IH [OF p1 k1]
  finally show ?case
    by (simp add: emit_def tick_def replicate_append_same)
qed

text \<open>
  C5, as the code has it. The handler keeps no record of having forwarded the signal:
  every run of the handler for \<^verbatim>\<open>SIGTERM\<close>, once \<^verbatim>\<open>__enter__\<close> has stored the child, sends
  one \<^verbatim>\<open>SIGTERM\<close> to the child when \<^verbatim>\<open>os.kill\<close> succeeds, so \<open>n\<close> runs send \<open>n\<close> signals.
\<close>

theorem every_delivery_is_forwarded:
  assumes "GS_enter os self w0 = Some (Returns p w)"
    and "\<forall>k<n. kill_result os (clock w + k) p SIGTERM = None"
  shows "\<exists>w'. in_scope os self p (replicate n (Delivered SIGTERM)) w = Some (Returns () w')
           \<and> trace w' = trace w @ replicate n (Kill p SIGTERM)
           \<and> sigterms_sent p w' = sigterms_sent p w + n"
  using deliveries_forwarded [OF GS_enter_result(3) [OF assms(1)] assms(2)]
  by (simp add: sigterms_sent_def)

theorem every_delivery_is_forwarded_witness:
  "\<exists>w0 w w'.
     GS_init [''sudo'', ''cron'', ''-f''] cron_kwargs world0 = Some (Returns 0 w0)
     \<and> GS_enter os_base 0 w0 = Some (Returns 100 w)
     \<and> kill_result os_base (clock w) 100 SIGTERM = None
     \<and> kill_result os_base (clock w + 1) 100 SIGTERM = None
     \<and> kill_result os_base (clock w + 2) 100 SIGTERM = None
     \<and> in_scope os_base 0 100 (replicate 3 (Delivered SIGTERM)) w = Some (Returns () w')
     \<and> sigterms_sent 100 w = 0 \<and> sigterms_sent 100 w' = 3"
proof -
  define w0 where "w0 = world_of (the (GS_init [''sudo'', ''cron'', ''-f''] cron_kwargs world0))"
  have init: "GS_init [''sudo'', ''cron'', ''-f''] cron_kwargs world0 = Some (Returns 0 w0)"
    unfolding w0_def by (simp add: run_defs world0_def)
  define w where "w = world_of (the (GS_enter os_base 0 w0))"
  have enter: "GS_enter os_base 0 w0 = Some (Returns 100 w)"
    unfolding w_def w0_def by (simp add: run_defs world0_def os_base_def)
  have kills: "\<forall>k<3. kill_result os_base (clock w + k) 100 SIGTERM = None"
    by (simp add: os_base_def)
  have none: "sigterms_sent 100 w = 0"
    unfolding w_def w0_def by (simp add: run_defs world0_def os_base_def sigterms_sent_def)
  from every_delivery_is_forwarded [OF enter kills] none
  obtain w' where "in_scope os_base 0 100 (replicate 3 (Delivered SIGTERM)) w = Some (Returns () w')"
    and "sigterms_sent 100 w' = 3" by auto
  with init enter none show ?thesis
    by (intro exI [of _ w0] exI [of _ w] exI [of _ w']) (simp add: os_base_def)
qed

text \<open>
  C5 as stated fails: two runs of the handler inside one scope deliver two termination
  signals to the child, not one.
\<close>

theorem two_deliveries_two_signals:
  "\<exists>self w p w1 w2.
     GS_init [''sudo'', ''cron'', ''-f''] cron_kwargs world0 = Some (Returns self w)
     \<and> GS_enter os_base self w = Some (Returns p w1)
     \<and> handlers w1 SIGTERM = BoundHandler self
     \<and> in_scope os_base self p [Delivered SIGTERM, Delivered SIGTERM] w1 = Some (Returns () w2)
     \<and> sigterms_sent p w1 = 0 \<and> sigterms_sent p w2 = 2"
proof -
  define w where "w = world_of (the (GS_init [''sudo'', ''cron'', ''-f''] cron_kwargs world0))"
  have init: "GS_init [''sudo'', ''cron'', ''-f''] cron_kwargs world0 = Some (Returns 0 w)"
    unfolding w_def by (simp add: run_defs world0_def)
  define w1 where "w1 = world_of (the (GS_enter os_base 0 w))"
  have enter: "GS_enter os_base 0 w = Some (Returns 100 w1)"
    unfolding w1_def w_def by (simp add: run_defs world0_def os_base_def)
  have h: "handlers w1 SIGTERM = BoundHandler 0"
    unfolding w1_def w_def by (simp add: run_defs world0_def os_base_def)
  define w2 where "w2 = world_of (the (in_scope os_base 0 100 [Delivered SIGTERM, Delivered SIGTERM] w1))"
  have body: "in_scope os_base 0 100 [Delivered SIGTERM, Delivered SIGTERM] w1 = Some (Returns () w2)"
    unfolding w2_def w1_def w_def by (simp add: run_defs world0_def os_base_def)
  have s1: "sigterms_sent 100 w1 = 0"
    unfolding w1_def w_def by (simp add: run_defs world0_def os_base_def sigterms_sent_def)
  have s2: "sigterms_sent 100 w2 = 2"
    unfolding w2_def w1_def w_def by (simp add: run_defs world0_def os_base_def sigterms_sent_def)
  from init enter h body s1 s2 show ?thesis by blast
qed

lemma handler_before_spawn:
  assumes "GS_init argv kwargs w0 = Some (Returns self w)"
    and "GS_enter_install self w = Some (Returns () w1)"
  shows "handlers w1 SIGTERM = BoundHandler self
         \<and> graceful_shutdown_handler os self SIGTERM w1 = Some (Raises AttributeError w1)"
  using assms
  by (auto simp: GS_init_def GS_enter_install_def then_run_def signal_getsignal_def
      signal_signal_def ret_def emit_def graceful_shutdown_handler_def)

text \<open>
  C2 at the failing input: the handler is installed (line 95) and \<^verbatim>\<open>self.process\<close> is still
  \<^verbatim>\<open>None\<close> (line 97 has not returned). The handler run for \<^verbatim>\<open>SIGTERM\<close> then evaluates
  \<^verbatim>\<open>None.terminate()\<close> and raises \<^verbatim>\<open>AttributeError\<close>.
\<close>

theorem signal_before_spawn_raises:
  "\<exists>self w w1.
     GS_init [''sudo'', ''cron'', ''-f''] cron_kwargs world0 = Some (Returns self w)
     \<and> GS_enter_install self w = Some (Returns () w1)
     \<and> handlers w1 SIGTERM = BoundHandler self
     \<and> process (heap w1 self) = None
     \<and> graceful_shutdown_handler os_base self SIGTERM w1 = Some (Raises AttributeError w1)"
proof -
  define w where "w = world_of (the (GS_init [''sudo'', ''cron'', ''-f''] cron_kwargs world0))"
  have init: "GS_init [''sudo'', ''cron'', ''-f''] cron_kwargs world0 = Some (Returns 0 w)"
    unfolding w_def by (simp add: run_defs world0_def)
  define w1 where "w1 = world_of (the (GS_enter_install 0 w))"
  have inst: "GS_enter_install 0 w = Some (Returns () w1)"
    unfolding w1_def w_def by (simp add: run_defs world0_def)
  have p: "process (heap w1 0) = None"
    unfolding w1_def w_def by (simp add: run_defs world0_def)
  from handler_before_spawn [OF init inst, of os_base] init inst p show ?thesis by blast
qed

subsection \<open>The cron launcher\<close>

lemma with_ChildSubReaper_returns:
  assumes "body () (emit (Prctl PR_SET_CHILD_SUBREAPER 1) (w\<lparr>child_subreaper := True\<rparr>)) = Some (Returns () w2)"
    and "reaps os (clock w2) n" and "os_wait_result os (clock w2 + n) = WaitOSError errno"
  shows "with_stmt (ret ()) CSR_enter (CSR_exit os) body w = Some (Returns () (drained os n w2))"
  using assms(1) CSR_exit_run [OF assms(2,3), of "()" None]
  by (simp add: with_stmt_def then_run_def ret_def raise_def CSR_enter_def prctl_set_child_sub_reaper_def)

lemma cron_scope_returns:
  assumes "popen_result os (clock w1) [''sudo'', ''cron'', ''-f''] (cron_daemon_kwargs os) = Inr p"
    and "wait_result os (clock w1 + 1) p = Some status"
  shows "\<exists>w2.
     then_run (log_info ''-> running cron daemon...'' []) (\<lambda>_.
       with_stmt (GS_init [''sudo'', ''cron'', ''-f''] (cron_daemon_kwargs os))
         (GS_enter os) GS_exit (\<lambda>p. then_run (Popen_wait os p) (\<lambda>_. ret ()))) w1 = Some (Returns () w2)
     \<and> clock w2 = clock w1 + 2
     \<and> trace w2 = trace w1 @
         [LogInfo ''-> running cron daemon...'' [], Signal SIGTERM (BoundHandler (next_ref w1)),
          Spawned [''sudo'', ''cron'', ''-f''] (cron_daemon_kwargs os) p, WaitPid p status,
          Signal SIGTERM (handlers w1 SIGTERM)]
     \<and> handlers w2 = handlers w1 \<and> child_subreaper w2 = child_subreaper w1"
  using assms
  by (simp add: run_defs with_stmt_def)

lemma cron_scope_spawn_fails:
  assumes "popen_result os (clock w1) [''sudo'', ''cron'', ''-f''] (cron_daemon_kwargs os) = Inl en"
  shows "\<exists>w2.
     then_run (log_info ''-> running cron daemon...'' []) (\<lambda>_.
       with_stmt (GS_init [''sudo'', ''cron'', ''-f''] (cron_daemon_kwargs os))
         (GS_enter os) GS_exit (\<lambda>p. then_run (Popen_wait os p) (\<lambda>_. ret ()))) w1 = Some (Raises (OSError en) w2)
     \<and> clock w2 = clock w1 + 1
     \<and> trace w2 = trace w1 @
         [LogInfo ''-> running cron daemon...'' [], Signal SIGTERM (BoundHandler (next_ref w1))]
     \<and> handlers w2 = (handlers w1)(SIGTERM := BoundHandler (next_ref w1))"
  using assms
  by (simp add: run_defs with_stmt_def)

lemma run_cron_unfold:
  "run_cron os command args =
     with_stmt (ret ()) CSR_enter (CSR_exit os) (\<lambda>_.
       then_run (log_info ''-> running cron daemon...'' []) (\<lambda>_.
       with_stmt (GS_init [''sudo'', ''cron'', ''-f''] (cron_daemon_kwargs os))
         (GS_enter os) GS_exit (\<lambda>p. then_run (Popen_wait os p) (\<lambda>_. ret ()))))"
  by (simp add: run_cron_def cron_daemon_kwargs_def)

lemma run_cron_spawned:
  assumes spawn: "popen_result os (clock w) [''sudo'', ''cron'', ''-f''] (cron_daemon_kwargs os) = Inr p"
    and exits: "wait_result os (clock w + 1) p = Some status"
    and drain: "reaps os (clock w + 2) n" "os_wait_result os (clock w + 2 + n) = WaitOSError errno"
  shows "\<exists>w'. run_cron os command args w = Some (Returns () w')
     \<and> trace w' = trace w @
         [Prctl PR_SET_CHILD_SUBREAPER 1,
          LogInfo ''-> running cron daemon...'' [],
          Signal SIGTERM (BoundHandler (next_ref w)),
          Spawned [''sudo'', ''cron'', ''-f''] (cron_daemon_kwargs os) p,
          WaitPid p status,
          Signal SIGTERM (handlers w SIGTERM)]
         @ drain_events os (clock w + 2) n
         @ [LogInfo ''All children were terminated.'' [], Prctl PR_SET_CHILD_SUBREAPER 0]
     \<and> handlers w' = handlers w \<and> child_subreaper w' = False"
proof -
  let ?w1 = "emit (Prctl PR_SET_CHILD_SUBREAPER 1) (w\<lparr>child_subreaper := True\<rparr>)"
  let ?body = "\<lambda>_::unit. then_run (log_info ''-> running cron daemon...'' []) (\<lambda>_.
       with_stmt (GS_init [''sudo'', ''cron'', ''-f''] (cron_daemon_kwargs os))
         (GS_enter os) GS_exit (\<lambda>p. then_run (Popen_wait os p) (\<lambda>_. ret ())))"
  have c1: "clock ?w1 = clock w" by (simp add: emit_def)
  from cron_scope_returns [of os ?w1 p status] spawn exits
  obtain w2 where b: "?body () ?w1 = Some (Returns () w2)"
    and c2: "clock w2 = clock w + 2"
    and t2: "trace w2 = trace ?w1 @
         [LogInfo ''-> running cron daemon...'' [], Signal SIGTERM (BoundHandler (next_ref ?w1)),
          Spawned [''sudo'', ''cron'', ''-f''] (cron_daemon_kwargs os) p, WaitPid p status,
          Signal SIGTERM (handlers ?w1 SIGTERM)]"
    and h2: "handlers w2 = handlers ?w1"
    unfolding c1 by blast
  have r: "reaps os (clock w2) n" and e: "os_wait_result os (clock w2 + n) = WaitOSError errno"
    using drain by (simp_all add: c2)
  have "run_cron os command args w = Some (Returns () (drained os n w2))"
    unfolding run_cron_unfold
    by (rule with_ChildSubReaper_returns [of ?body w w2 os n errno, OF b r e])
  moreover have "trace (drained os n w2) = trace w @
         [Prctl PR_SET_CHILD_SUBREAPER 1,
          LogInfo ''-> running cron daemon...'' [],
          Signal SIGTERM (BoundHandler (next_ref w)),
          Spawned [''sudo'', ''cron'', ''-f''] (cron_daemon_kwargs os) p,
          WaitPid p status,
          Signal SIGTERM (handlers w SIGTERM)]
         @ drain_events os (clock w + 2) n
         @ [LogInfo ''All children were terminated.'' [], Prctl PR_SET_CHILD_SUBREAPER 0]"
    by (simp add: drained_def t2 c2 emit_def)
  moreover have "handlers (drained os n w2) = handlers w" "child_subreaper (drained os n w2) = False"
    by (simp_all add: drained_def h2 emit_def)
  ultimately show ?thesis by blast
qed

lemma run_cron_not_spawned:
  assumes spawn: "popen_result os (clock w) [''sudo'', ''cron'', ''-f''] (cron_daemon_kwargs os) = Inl en"
    and drain: "reaps os (clock w + 1) n" "os_wait_result os (clock w + 1 + n) = WaitOSError errno"
  shows "\<exists>w'. run_cron os command args w = Some (Raises (OSError en) w')
     \<and> trace w' = trace w @
         [Prctl PR_SET_CHILD_SUBREAPER 1,
          LogInfo ''-> running cron daemon...'' [],
          Signal SIGTERM (BoundHandler (next_ref w))]
         @ drain_events os (clock w + 1) n
         @ [LogInfo ''All children were terminated.'' [], Prctl PR_SET_CHILD_SUBREAPER 0]
     \<and> handlers w' = (handlers w)(SIGTERM := BoundHandler (next_ref w))
     \<and> child_subreaper w' = False"
proof -
  let ?w1 = "emit (Prctl PR_SET_CHILD_SUBREAPER 1) (w\<lparr>child_subreaper := True\<rparr>)"
  let ?body = "\<lambda>_::unit. then_run (log_info ''-> running cron daemon...'' []) (\<lambda>_.
       with_stmt (GS_init [''sudo'', ''cron'', ''-f''] (cron_daemon_kwargs os))
         (GS_enter os) GS_exit (\<lambda>p. then_run (Popen_wait os p) (\<lambda>_. ret ())))"
  have c1: "clock ?w1 = clock w" by (simp add: emit_def)
  from cron_scope_spawn_fails [of os ?w1 en] spawn
  obtain w2 where b: "?body () ?w1 = Some (Raises (OSError en) w2)"
    and c2: "clock w2 = clock w + 1"
    and t2: "trace w2 = trace ?w1 @
         [LogInfo ''-> running cron daemon...'' [], Signal SIGTERM (BoundHandler (next_ref ?w1))]"
    and h2: "handlers w2 = (handlers ?w1)(SIGTERM := BoundHandler (next_ref ?w1))"
    unfolding c1 by blast
  have r: "reaps os (clock w2) n" and e: "os_wait_result os (clock w2 + n) = WaitOSError errno"
    using drain by (simp_all add: c2)
  have "run_cron os command args w = Some (Raises (OSError en) (drained os n w2))"
    unfolding run_cron_unfold
    by (rule with_ChildSubReaper_raises [of ?body w "OSError en" w2 os n errno, OF b r e])
  moreover have "trace (drained os n w2) = trace w @
         [Prctl PR_SET_CHILD_SUBREAPER 1,
          LogInfo ''-> running cron daemon...'' [],
          Signal SIGTERM (BoundHandler (next_ref w))]
         @ drain_events os (clock w + 1) n
         @ [LogInfo ''All children were terminated.'' [], Prctl PR_SET_CHILD_SUBREAPER 0]"
    by (simp add: drained_def t2 c2 emit_def)
  moreover have "handlers (drained os n w2) = (handlers w)(SIGTERM := BoundHandler (next_ref w))"
    "child_subreaper (drained os n w2) = False"
    by (simp_all add: drained_def h2 emit_def)
  ultimately show ?thesis by blast
qed

text \<open>
  C7, as the code has it. In every run of \<^verbatim>\<open>run_cron\<close> the \<^verbatim>\<open>prctl\<close> call that registers
  the subreaper comes first and the installation of the forwarding handler second, both
  before the spawn of \<^verbatim>\<open>sudo cron -f\<close> is attempted. When the spawn succeeds, the launcher
  waits for the daemon to exit, then \<^verbatim>\<open>GraceFulShutdown.__exit__\<close> puts the old handler
  back, then \<^verbatim>\<open>ChildSubReaper.__exit__\<close> drains and unsets the flag, and the handler table
  is the one from before the call. When the spawn raises, \<^verbatim>\<open>GraceFulShutdown.__enter__\<close>
  has raised, so that scope has no exit to run: only the subreaper scope closes, and the
  exception propagates.
\<close>

theorem run_cron_order:
  "(popen_result os (clock w) [''sudo'', ''cron'', ''-f''] (cron_daemon_kwargs os) = Inr p \<longrightarrow>
    wait_result os (clock w + 1) p = Some status \<longrightarrow>
    reaps os (clock w + 2) n \<longrightarrow> os_wait_result os (clock w + 2 + n) = WaitOSError errno \<longrightarrow>
    (\<exists>w'. run_cron os command args w = Some (Returns () w')
      \<and> trace w' = trace w @
         [Prctl PR_SET_CHILD_SUBREAPER 1,
          LogInfo ''-> running cron daemon...'' [],
          Signal SIGTERM (BoundHandler (next_ref w)),
          Spawned [''sudo'', ''cron'', ''-f''] (cron_daemon_kwargs os) p,
          WaitPid p status,
          Signal SIGTERM (handlers w SIGTERM)]
         @ drain_events os (clock w + 2) n
         @ [LogInfo ''All children were terminated.'' [], Prctl PR_SET_CHILD_SUBREAPER 0]
      \<and> handlers w' = handlers w \<and> child_subreaper w' = False))
   \<and> (popen_result os (clock w) [''sudo'', ''cron'', ''-f''] (cron_daemon_kwargs os) = Inl en \<longrightarrow>
    reaps os (clock w + 1) n \<longrightarrow> os_wait_result os (clock w + 1 + n) = WaitOSError errno \<longrightarrow>
    (\<exists>w'. run_cron os command args w = Some (Raises (OSError en) w')
      \<and> trace w' = trace w @
         [Prctl PR_SET_CHILD_SUBREAPER 1,
          LogInfo ''-> running cron daemon...'' [],
          Signal SIGTERM (BoundHandler (next_ref w))]
         @ drain_events os (clock w + 1) n
         @ [LogInfo ''All children were terminated.'' [], Prctl PR_SET_CHILD_SUBREAPER 0]
      \<and> child_subreaper w' = False))"
  using run_cron_spawned [of os w p status n errno command args]
    run_cron_not_spawned [of os w en n errno command args]
  by blast

theorem run_cron_order_witness:
  "(\<exists>w'. run_cron os_cron_jobs ''cron'' [] world0 = Some (Returns () w')
      \<and> trace w' =
         [Prctl 36 1, LogInfo ''-> running cron daemon...'' [], Signal 15 (BoundHandler 0),
          Spawned [''sudo'', ''cron'', ''-f''] cron_kwargs 100, WaitPid 100 0, Signal 15 SIG_DFL,
          Reaped 201 0, LogInfo ''Process #%s terminated with status %s'' [PInt 201, PInt 0],
          Reaped 202 0, LogInfo ''Process #%s terminated with status %s'' [PInt 202, PInt 0],
          LogInfo ''All children were terminated.'' [], Prctl 36 0]
      \<and> handlers w' = handlers world0 \<and> child_subreaper w' = False)
   \<and> (\<exists>w'. run_cron os_spawn_fails ''cron'' [] world0 = Some (Raises (OSError 2) w')
      \<and> trace w' =
         [Prctl 36 1, LogInfo ''-> running cron daemon...'' [], Signal 15 (BoundHandler 0),
          LogInfo ''All children were terminated.'' [], Prctl 36 0]
      \<and> child_subreaper w' = False)"
  using run_cron_order [of os_cron_jobs world0 100 0 2 10 "''cron''" "[]" 2]
    run_cron_order [of os_spawn_fails world0 100 0 0 10 "''cron''" "[]" 2]
  by (simp add: os_cron_jobs_def os_spawn_fails_def os_base_def world0_def cron_daemon_kwargs_def
      cron_kwargs_def PR_SET_CHILD_SUBREAPER_def SIGTERM_def numeral_2_eq_2)

text \<open>
  C7 as stated fails for a run whose spawn fails: there is no daemon to wait for, the
  trace has no second \<^verbatim>\<open>signal.signal\<close> call, and the handler table still holds the
  forwarding handler when the exception leaves \<^verbatim>\<open>run_cron\<close>.
\<close>

theorem failed_spawn_leaves_forwarding_scope_open:
  "\<exists>w'. run_cron os_spawn_fails ''cron'' [] world0 = Some (Raises (OSError 2) w')
      \<and> trace w' =
         [Prctl 36 1, LogInfo ''-> running cron daemon...'' [], Signal 15 (BoundHandler 0),
          LogInfo ''All children were terminated.'' [], Prctl 36 0]
      \<and> handlers world0 15 = SIG_DFL \<and> handlers w' 15 = BoundHandler 0"
proof -
  have "popen_result os_spawn_fails (clock world0) [''sudo'', ''cron'', ''-f'']
          (cron_daemon_kwargs os_spawn_fails) = Inl 2"
    and "reaps os_spawn_fails (clock world0 + 1) 0"
    and "os_wait_result os_spawn_fails (clock world0 + 1 + 0) = WaitOSError 10"
    by (simp_all add: os_spawn_fails_def os_base_def)
  from run_cron_not_spawned [OF this, of "''cron''" "[]"]
  obtain w' where "run_cron os_spawn_fails ''cron'' [] world0 = Some (Raises (OSError 2) w')"
    and "trace w' = trace world0 @
         [Prctl PR_SET_CHILD_SUBREAPER 1, LogInfo ''-> running cron daemon...'' [],
          Signal SIGTERM (BoundHandler (next_ref world0))]
         @ drain_events os_spawn_fails (clock world0 + 1) 0
         @ [LogInfo ''All children were terminated.'' [], Prctl PR_SET_CHILD_SUBREAPER 0]"
    and "handlers w' = (handlers world0)(SIGTERM := BoundHandler (next_ref world0))"
    by blast
  then show ?thesis
    by (intro exI [of _ w']) (simp add: world0_def PR_SET_CHILD_SUBREAPER_def SIGTERM_def)
qed

subsection \<open>The script launcher\<close>

lemma run_shell_run:
  "run_shell os (a0 # rest) w =
    (let full = os_path_join SCRIPT_DIR [a0];
         argv = (if path_exists os full then full # rest else a0 # rest);
         kw = \<lparr>kw_cwd = Some SCRIPT_DIR, kw_env = None\<rparr>
     in case popen_result os (clock w) argv kw of
          Inl errno \<Rightarrow>
            Some (Raises (OSError errno)
              (w\<lparr>clock := clock w + 1,
                 trace := trace w @ [LogInfo ''running %s'' [PStr (str_join '' '' argv)]]\<rparr>))
        | Inr p \<Rightarrow>
            (case wait_result os (clock w + 1) p of
               None \<Rightarrow> None
             | Some status \<Rightarrow>
                 Some (Returns ()
                   (w\<lparr>clock := clock w + 2,
                      trace := trace w @
                        [LogInfo ''running %s'' [PStr (str_join '' '' argv)],
                         Spawned argv kw p, WaitPid p status]\<rparr>))))"
  by (simp add: run_shell_def Let_def then_run_def ret_def log_info_def Popen_def Popen_wait_def
      emit_def tick_def split: sum.splits option.splits)

lemma script_path_relative:
  "a0 = [] \<or> hd a0 \<noteq> CHR ''/'' \<Longrightarrow> os_path_join SCRIPT_DIR [a0] = ''/scripts/'' @ a0"
  by (auto simp: os_path_join_def join2_def SCRIPT_DIR_def)

lemma script_path_absolute:
  "a0 \<noteq> [] \<Longrightarrow> hd a0 = CHR ''/'' \<Longrightarrow> os_path_join SCRIPT_DIR [a0] = a0"
  by (auto simp: os_path_join_def join2_def SCRIPT_DIR_def)

text \<open>
  C8. For a vector \<open>a0 # rest\<close>, \<^verbatim>\<open>run_shell\<close> asks whether the path \<open>full\<close>, the scripts
  directory joined with \<open>a0\<close>, exists. The vector it spawns is \<open>full # rest\<close> when it does
  and \<open>a0 # rest\<close> when it does not; the spawn has the scripts directory as working
  directory and no other option; when a child results, the launcher returns after the
  child's exit and not before (no exit, no return); when the spawn raises, so does the
  launcher. For a name that does not start with a slash \<open>full\<close> is \<^verbatim>\<open>/scripts/\<close> followed by
  the name; for an absolute name, \<open>full\<close> is the name itself, so the vector is spawned
  as it came whether the path exists or not.
\<close>

theorem run_shell_resolves_script:
  "(let full = os_path_join SCRIPT_DIR [a0];
        argv = (if path_exists os full then full # rest else a0 # rest);
        kw = \<lparr>kw_cwd = Some SCRIPT_DIR, kw_env = None\<rparr>
    in run_shell os (a0 # rest) w =
        (case popen_result os (clock w) argv kw of
           Inl errno \<Rightarrow>
             Some (Raises (OSError errno)
               (w\<lparr>clock := clock w + 1,
                  trace := trace w @ [LogInfo ''running %s'' [PStr (str_join '' '' argv)]]\<rparr>))
         | Inr p \<Rightarrow>
             (case wait_result os (clock w + 1) p of
                None \<Rightarrow> None
              | Some status \<Rightarrow>
                  Some (Returns ()
                    (w\<lparr>clock := clock w + 2,
                       trace := trace w @
                         [LogInfo ''running %s'' [PStr (str_join '' '' argv)],
                          Spawned argv kw p, WaitPid p status]\<rparr>))))
       \<and> tl argv = rest \<and> kw_cwd kw = Some ''/scripts''
       \<and> (a0 = [] \<or> hd a0 \<noteq> CHR ''/'' \<longrightarrow> full = ''/scripts/'' @ a0)
       \<and> (a0 \<noteq> [] \<and> hd a0 = CHR ''/'' \<longrightarrow> full = a0 \<and> argv = a0 # rest))"
  unfolding Let_def
  apply (intro conjI impI)
  subgoal using run_shell_run [of os a0 rest w] by (simp add: Let_def)
  subgoal by simp
  subgoal by (simp add: SCRIPT_DIR_def)
  subgoal using script_path_relative [of a0] by simp
  subgoal using script_path_absolute [of a0] by simp
  subgoal using script_path_absolute [of a0] by simp
  done

theorem run_shell_resolves_script_witness:
  "run_shell os_with_foo [''foo'', ''--now''] world0 =
     Some (Returns ()
       (world0\<lparr>clock := 2,
          trace := [LogInfo ''running %s'' [PStr ''/scripts/foo --now''],
                    Spawned [''/scripts/foo'', ''--now''] \<lparr>kw_cwd = Some ''/scripts'', kw_env = None\<rparr> 100,
                    WaitPid 100 0]\<rparr>))
   \<and> run_shell os_with_foo [''bar'', ''--now''] world0 =
     Some (Returns ()
       (world0\<lparr>clock := 2,
          trace := [LogInfo ''running %s'' [PStr ''bar --now''],
                    Spawned [''bar'', ''--now''] \<lparr>kw_cwd = Some ''/scripts'', kw_env = None\<rparr> 100,
                    WaitPid 100 0]\<rparr>))
   \<and> dispatch os_with_foo [] world0 =
     Some (Returns ()
       (world0\<lparr>clock := 2,
          trace := [LogInfo ''running %s'' [PStr ''/bin/bash''],
                    Spawned [''/bin/bash''] \<lparr>kw_cwd = Some ''/scripts'', kw_env = None\<rparr> 100,
                    WaitPid 100 0]\<rparr>))"
  using run_shell_resolves_script [of "''foo''" os_with_foo "[''--now'']" world0]
    run_shell_resolves_script [of "''bar''" os_with_foo "[''--now'']" world0]
    run_shell_resolves_script [of "''/bin/bash''" os_with_foo "[]" world0]
  by (simp add: Let_def os_with_foo_def os_base_def world0_def SCRIPT_DIR_def
      dispatch_def selected_def service_mapping_def call_launcher_def)

subsection \<open>What becomes of a child's exit status\<close>

lemma execute_run:
  "execute os args kwargs w =
    (case popen_result os (clock w) args kwargs of
       Inl errno \<Rightarrow>
         Some (Raises (OSError errno)
           (w\<lparr>clock := clock w + 1,
              trace := trace w @ [LogInfo ''-> running %s'' [PStr (str_join '' '' args)]]\<rparr>))
     | Inr p \<Rightarrow>
         (case wait_result os (clock w + 1) p of
            None \<Rightarrow> None
          | Some status \<Rightarrow>
              Some (Returns ()
                (w\<lparr>clock := clock w + 2,
                   trace := trace w @
                     [LogInfo ''-> running %s'' [PStr (str_join '' '' args)],
                      Spawned args kwargs p, WaitPid p status]\<rparr>))))"
  by (simp add: execute_def check_call_def then_run_def ret_def raise_def log_info_def Popen_def
      Popen_wait_def emit_def tick_def split: sum.splits option.splits exn.splits)

lemma run_shell_exit_status:
  "exit_status (run_shell os (a0 # rest) w) =
    (let full = os_path_join SCRIPT_DIR [a0];
         argv = (if path_exists os full then full # rest else a0 # rest);
         kw = \<lparr>kw_cwd = Some SCRIPT_DIR, kw_env = None\<rparr>
     in case popen_result os (clock w) argv kw of
          Inl errno \<Rightarrow> Some 1
        | Inr p \<Rightarrow> (case wait_result os (clock w + 1) p of None \<Rightarrow> None | Some status \<Rightarrow> Some 0))"
  unfolding run_shell_run
  by (simp add: Let_def exit_status_def split: sum.splits option.splits)

text \<open>
  C6, as the code has it. \<^verbatim>\<open>run_shell\<close> calls \<^verbatim>\<open>process.wait()\<close> and drops what it
  returns: when the dispatched profile is the script launcher and the child exits, with
  whatever status, the launcher returns and the interpreter exits with status 0 (with 1
  only when the spawn itself raised). \<^verbatim>\<open>execute\<close> catches the \<^verbatim>\<open>CalledProcessError\<close> of a
  non-zero exit and passes: it returns, and the only log line of the call is the one
  written before the spawn.
\<close>

theorem child_exit_status_is_discarded:
  "(a0 \<noteq> ''cron'' \<longrightarrow> a0 \<noteq> ''start'' \<longrightarrow>
      exit_status (dispatch os (a0 # rest) w) =
        (let full = os_path_join SCRIPT_DIR [a0];
             argv = (if path_exists os full then full # rest else a0 # rest);
             kw = \<lparr>kw_cwd = Some SCRIPT_DIR, kw_env = None\<rparr>
         in case popen_result os (clock w) argv kw of
              Inl errno \<Rightarrow> Some 1
            | Inr p \<Rightarrow>
                (case wait_result os (clock w + 1) p of None \<Rightarrow> None | Some status \<Rightarrow> Some 0)))
   \<and> execute os args kwargs w =
      (case popen_result os (clock w) args kwargs of
         Inl errno \<Rightarrow>
           Some (Raises (OSError errno)
             (w\<lparr>clock := clock w + 1,
                trace := trace w @ [LogInfo ''-> running %s'' [PStr (str_join '' '' args)]]\<rparr>))
       | Inr p \<Rightarrow>
           (case wait_result os (clock w + 1) p of
              None \<Rightarrow> None
            | Some status \<Rightarrow>
                Some (Returns ()
                  (w\<lparr>clock := clock w + 2,
                     trace := trace w @
                       [LogInfo ''-> running %s'' [PStr (str_join '' '' args)],
                        Spawned args kwargs p, WaitPid p status]\<rparr>))))"
  apply (intro conjI impI)
  subgoal using run_shell_exit_status [of os a0 rest w]
    by (simp add: dispatch_def selected_def service_mapping_def call_launcher_def)
  subgoal by (rule execute_run)
  done

theorem child_exit_status_is_discarded_witness:
  "''migrate'' \<noteq> ''cron'' \<and> ''migrate'' \<noteq> ''start''
   \<and> wait_result os_exit3 1 100 = Some 3
   \<and> exit_status (dispatch os_exit3 [''migrate'', ''--fake''] world0) = Some 0
   \<and> execute os_exit3 [''supervisord'', ''-c'', ''/home/blue/etc/supervisord.conf''] no_kwargs world0 =
       Some (Returns ()
         (world0\<lparr>clock := 2,
            trace := [LogInfo ''-> running %s'' [PStr ''supervisord -c /home/blue/etc/supervisord.conf''],
                      Spawned [''supervisord'', ''-c'', ''/home/blue/etc/supervisord.conf''] no_kwargs 100,
                      WaitPid 100 3]\<rparr>))"
  using child_exit_status_is_discarded [of "''migrate''" os_exit3 "[''--fake'']" world0
      "[''supervisord'', ''-c'', ''/home/blue/etc/supervisord.conf'']" no_kwargs]
  by (simp add: Let_def os_exit3_def os_base_def world0_def SCRIPT_DIR_def os_path_join_def join2_def)

text \<open>
  C6 as stated fails: the script \<^verbatim>\<open>migrate\<close> exits with status 3 and the interpreter
  exits with status 0; a command run by \<^verbatim>\<open>execute\<close> exits with status 3 and no log line
  follows the exit.
\<close>

theorem nonzero_script_status_not_propagated:
  "wait_result os_exit3 1 100 = Some 3
   \<and> dispatch os_exit3 [''migrate''] world0 =
       Some (Returns ()
         (world0\<lparr>clock := 2,
            trace := [LogInfo ''running %s'' [PStr ''migrate''],
                      Spawned [''migrate''] \<lparr>kw_cwd = Some ''/scripts'', kw_env = None\<rparr> 100,
                      WaitPid 100 3]\<rparr>))
   \<and> exit_status (dispatch os_exit3 [''migrate''] world0) = Some 0
   \<and> execute os_exit3 [''supervisord''] no_kwargs world0 =
       Some (Returns ()
         (world0\<lparr>clock := 2,
            trace := [LogInfo ''-> running %s'' [PStr ''supervisord''],
                      Spawned [''supervisord''] no_kwargs 100,
                      WaitPid 100 3]\<rparr>))"
  using run_shell_run [of os_exit3 "''migrate''" "[]" world0]
    execute_run [of os_exit3 "[''supervisord'']" no_kwargs world0]
  by (simp add: Let_def os_exit3_def os_base_def world0_def SCRIPT_DIR_def os_path_join_def join2_def
      dispatch_def selected_def service_mapping_def call_launcher_def exit_status_def)

subsection \<open>The web service launcher\<close>

lemma then_run_Returns_iff:
  "then_run m f w = Some (Returns b w2) \<longleftrightarrow>
     (\<exists>a w1. m w = Some (Returns a w1) \<and> f a w1 = Some (Returns b w2))"
  by (auto simp: then_run_def split: option.splits outcome.splits)

lemma environ_get_frame:
  "environ_get os k w = Some (Returns v w') \<Longrightarrow> w' = w"
  by (auto simp: environ_get_def ret_def raise_def split: option.splits)

lemma get_host_ip_frame:
  "get_host_ip os w = Some (Returns g w') \<Longrightarrow>
     w' = emit (CheckOutput [''ip'', ''route'', ''show'', ''0.0.0.0/0'']) (tick w)"
  by (auto simp: get_host_ip_def split: sum.splits option.splits)

lemma get_context_world:
  assumes "get_context os w = Some (Returns context0 w1)"
  shows "w1 = w\<lparr>clock := clock w + 1,
                 trace := trace w @ [CheckOutput [''ip'', ''route'', ''show'', ''0.0.0.0/0'']]\<rparr>"
proof -
  from assms obtain pv wa g wb pn wc where
    a: "environ_get os ''PYTHON_VERSION'' w = Some (Returns pv wa)"
    and b: "get_host_ip os wa = Some (Returns g wb)"
    and c: "environ_get os ''PROJECT_NAME'' wb = Some (Returns pn wc)"
    and d: "w1 = wc"
    unfolding get_context_def Let_def then_run_Returns_iff ret_def by blast
  from environ_get_frame [OF a] get_host_ip_frame [OF b] environ_get_frame [OF c] d
  show ?thesis by (simp add: emit_def tick_def)
qed

lemma expanduser_tilde:
  "expanduser os (os_path_join ''~'' [''etc'', name]) =
     (if name \<noteq> [] \<and> hd name = CHR ''/'' then name else home os @ ''/etc/'' @ name)"
  by (cases name) (auto simp: expanduser_def os_path_join_def join2_def)

lemma expanduser_absolute:
  "h \<noteq> [] \<Longrightarrow> hd h = CHR ''/'' \<Longrightarrow> expanduser os (h @ rest) = h @ rest"
  by (cases h) (auto simp: expanduser_def)

lemma templatize_ok:
  assumes "open_write_error os (expanduser os dest) = None"
    and "template_result os (os_path_join TEMPLATE_PATH [filename]) context = Inr text"
  shows "templatize os filename dest context w =
           Some (Returns () (emit (WroteFile (expanduser os dest) text context) w))"
  using assms by (simp add: templatize_def Let_def)

lemma start_service_run:
  assumes ctx: "get_context os w = Some (Returns context0 w1)"
    and home: "home os \<noteq> []" "hd (home os) = CHR ''/''"
    and extended: "context = AList.update ''service'' (PStr service) context0"
    and writable:
      "open_write_error os (home os @ ''/etc/uwsgi.ini'') = None"
      "open_write_error os (home os @ ''/etc/nginx.conf'') = None"
      "open_write_error os (home os @ ''/etc/supervisord.conf'') = None"
    and rendered:
      "template_result os ''/home/blue/templates/uwsgi.ini'' context = Inr uwsgi"
      "template_result os ''/home/blue/templates/nginx.conf'' context = Inr nginx"
      "template_result os ''/home/blue/templates/supervisord.conf'' context = Inr supervisord"
    and spawn:
      "popen_result os (clock w + 1) [''supervisord'', ''-c'', home os @ ''/etc/supervisord.conf'']
         no_kwargs = Inr p"
  shows "start_service os command (service # rest) w =
          (case wait_result os (clock w + 2) p of
             None \<Rightarrow> None
           | Some status \<Rightarrow>
               Some (Returns ()
                 (w\<lparr>clock := clock w + 3,
                     trace := trace w @
                       [CheckOutput [''ip'', ''route'', ''show'', ''0.0.0.0/0''],
                        WroteFile (home os @ ''/etc/uwsgi.ini'') uwsgi context,
                        WroteFile (home os @ ''/etc/nginx.conf'') nginx context,
                        WroteFile (home os @ ''/etc/supervisord.conf'') supervisord context,
                        LogInfo ''-> running %s''
                          [PStr (''supervisord -c '' @ home os @ ''/etc/supervisord.conf'')],
                        Spawned [''supervisord'', ''-c'', home os @ ''/etc/supervisord.conf'']
                          no_kwargs p,
                        WaitPid p status]\<rparr>)))"
proof -
  have tp: "os_path_join TEMPLATE_PATH [''uwsgi.ini''] = ''/home/blue/templates/uwsgi.ini''"
    "os_path_join TEMPLATE_PATH [''nginx.conf''] = ''/home/blue/templates/nginx.conf''"
    "os_path_join TEMPLATE_PATH [''supervisord.conf''] = ''/home/blue/templates/supervisord.conf''"
    by (simp_all add: TEMPLATE_PATH_def BLUE_HOME_def os_path_join_def join2_def)
  have ex: "expanduser os (os_path_join ''~'' [''etc'', ''uwsgi.ini'']) = home os @ ''/etc/uwsgi.ini''"
    "expanduser os (os_path_join ''~'' [''etc'', ''nginx.conf'']) = home os @ ''/etc/nginx.conf''"
    "expanduser os (os_path_join ''~'' [''etc'', ''supervisord.conf'']) = home os @ ''/etc/supervisord.conf''"
    by (simp_all add: expanduser_tilde)
  have ex2: "expanduser os (home os @ ''/etc/supervisord.conf'') = home os @ ''/etc/supervisord.conf''"
    by (rule expanduser_absolute [OF home])
  have t1: "\<And>v. templatize os ''uwsgi.ini'' (os_path_join ''~'' [''etc'', ''uwsgi.ini'']) context v =
      Some (Returns () (emit (WroteFile (home os @ ''/etc/uwsgi.ini'') uwsgi context) v))"
    using templatize_ok [of os "os_path_join ''~'' [''etc'', ''uwsgi.ini'']" "''uwsgi.ini''" "context" uwsgi]
      writable(1) rendered(1) by (simp add: ex tp)
  have t2: "\<And>v. templatize os ''nginx.conf'' (os_path_join ''~'' [''etc'', ''nginx.conf'']) context v =
      Some (Returns () (emit (WroteFile (home os @ ''/etc/nginx.conf'') nginx context) v))"
    using templatize_ok [of os "os_path_join ''~'' [''etc'', ''nginx.conf'']" "''nginx.conf''" "context" nginx]
      writable(2) rendered(2) by (simp add: ex tp)
  have t3: "\<And>v. templatize os ''supervisord.conf'' (home os @ ''/etc/supervisord.conf'') context v =
      Some (Returns () (emit (WroteFile (home os @ ''/etc/supervisord.conf'') supervisord context) v))"
    using templatize_ok [of os "home os @ ''/etc/supervisord.conf''" "''supervisord.conf''" "context" supervisord]
      writable(3) rendered(3) by (simp add: ex2 tp)
  note w1 = get_context_world [OF ctx]
  have c1: "clock w1 = clock w + 1" by (subst w1) simp
  let ?w4 = "emit (WroteFile (home os @ ''/etc/supervisord.conf'') supervisord context)
              (emit (WroteFile (home os @ ''/etc/nginx.conf'') nginx context)
                (emit (WroteFile (home os @ ''/etc/uwsgi.ini'') uwsgi context) w1))"
  have "start_service os command (service # rest) w =
          execute os [''supervisord'', ''-c'', home os @ ''/etc/supervisord.conf''] no_kwargs ?w4"
    by (simp add: start_service_def then_run_def ctx Let_def extended [symmetric] t1 t2 ex t3)
  also have "\<dots> = (case wait_result os (clock w + 2) p of
             None \<Rightarrow> None
           | Some status \<Rightarrow>
               Some (Returns ()
                 (w\<lparr>clock := clock w + 3,
                     trace := trace w @
                       [CheckOutput [''ip'', ''route'', ''show'', ''0.0.0.0/0''],
                        WroteFile (home os @ ''/etc/uwsgi.ini'') uwsgi context,
                        WroteFile (home os @ ''/etc/nginx.conf'') nginx context,
                        WroteFile (home os @ ''/etc/supervisord.conf'') supervisord context,
                        LogInfo ''-> running %s''
                          [PStr (''supervisord -c '' @ home os @ ''/etc/supervisord.conf'')],
                        Spawned [''supervisord'', ''-c'', home os @ ''/etc/supervisord.conf'']
                          no_kwargs p,
                        WaitPid p status]\<rparr>)))"
    unfolding execute_run using spawn
    by (subst (3 4) w1) (simp add: emit_def c1 split: option.splits)
  finally show ?thesis .
qed


text \<open>
  C9, as the code has it. When \<^verbatim>\<open>get_context\<close> returns, the three destinations can be
  written, the three templates render and the spawn of \<^verbatim>\<open>supervisord -c\<close> succeeds,
  \<^verbatim>\<open>start_service\<close> writes exactly three files (\<^verbatim>\<open>uwsgi.ini\<close>, \<^verbatim>\<open>nginx.conf\<close>,
  \<^verbatim>\<open>supervisord.conf\<close> under \<^verbatim>\<open>~/etc\<close>), all from the one context that extends
  \<^verbatim>\<open>get_context()\<close> with the service name, then spawns \<^verbatim>\<open>supervisord\<close> and waits for the
  process it spawned: it returns when that process has exited, with whatever status, and
  does not return while it runs. The trace has no \<^verbatim>\<open>prctl\<close> call and no
  \<^verbatim>\<open>signal.signal\<close> call, and the flag and the handler table are those of the start.
\<close>

theorem start_service_renders_then_runs_supervisord:
  assumes ctx: "get_context os w = Some (Returns context0 w1)"
    and home: "home os \<noteq> []" "hd (home os) = CHR ''/''"
    and extended: "context = AList.update ''service'' (PStr service) context0"
    and writable:
      "open_write_error os (home os @ ''/etc/uwsgi.ini'') = None"
      "open_write_error os (home os @ ''/etc/nginx.conf'') = None"
      "open_write_error os (home os @ ''/etc/supervisord.conf'') = None"
    and rendered:
      "template_result os ''/home/blue/templates/uwsgi.ini'' context = Inr uwsgi"
      "template_result os ''/home/blue/templates/nginx.conf'' context = Inr nginx"
      "template_result os ''/home/blue/templates/supervisord.conf'' context = Inr supervisord"
    and spawn:
      "popen_result os (clock w + 1) [''supervisord'', ''-c'', home os @ ''/etc/supervisord.conf'']
         no_kwargs = Inr p"
  shows "start_service os command (service # rest) w =
          (case wait_result os (clock w + 2) p of
             None \<Rightarrow> None
           | Some status \<Rightarrow>
               Some (Returns ()
                 (w\<lparr>clock := clock w + 3,
                     trace := trace w @
                       [CheckOutput [''ip'', ''route'', ''show'', ''0.0.0.0/0''],
                        WroteFile (home os @ ''/etc/uwsgi.ini'') uwsgi context,
                        WroteFile (home os @ ''/etc/nginx.conf'') nginx context,
                        WroteFile (home os @ ''/etc/supervisord.conf'') supervisord context,
                        LogInfo ''-> running %s''
                          [PStr (''supervisord -c '' @ home os @ ''/etc/supervisord.conf'')],
                        Spawned [''supervisord'', ''-c'', home os @ ''/etc/supervisord.conf'']
                          no_kwargs p,
                        WaitPid p status]\<rparr>)))"
  by (rule start_service_run [OF assms])

lemma str_upper_blue: "str_upper ''blue'' = ''BLUE''"
  by code_simp

lemma get_context_base:
  "get_context (os_base\<lparr>wait_result := wr\<rparr>) world0 =
     Some (Returns
       [(''django_config_path'', PStr ''/home/blue/app_config''),
        (''python_version'', PStr ''2.7''),
        (''project_name'', PStr ''blue''),
        (''project_name_upper'', PStr ''BLUE''),
        (''uwsgi_plugin_name'', PStr ''python''),
        (''uwsgi_workers'', PInt 10),
        (''rsyslog_host'', PStr ''172.17.0.1''),
        (''venv'', PStr ''/home/blue/app''),
        (''http_proxy'', PStr []),
        (''https_proxy'', PStr []),
        (''no_proxy'', PStr [])]
       (world0\<lparr>clock := 1, trace := [CheckOutput [''ip'', ''route'', ''show'', ''0.0.0.0/0'']]\<rparr>))"
  by (simp add: get_context_def environ_get_def get_host_ip_def then_run_def ret_def raise_def
      Let_def emit_def tick_def os_base_def world0_def str_upper_blue DJANGO_SETTINGS_PATH_def
      VENV_def BLUE_HOME_def os_path_join_def join2_def)

theorem start_service_renders_then_runs_supervisord_witness:
  "start_service os_base ''start'' [''app''] world0 =
     Some (Returns ()
       (world0\<lparr>clock := 3,
          trace :=
            [CheckOutput [''ip'', ''route'', ''show'', ''0.0.0.0/0''],
             WroteFile ''/home/blue/etc/uwsgi.ini'' ''rendered'' context_app,
             WroteFile ''/home/blue/etc/nginx.conf'' ''rendered'' context_app,
             WroteFile ''/home/blue/etc/supervisord.conf'' ''rendered'' context_app,
             LogInfo ''-> running %s'' [PStr ''supervisord -c /home/blue/etc/supervisord.conf''],
             Spawned [''supervisord'', ''-c'', ''/home/blue/etc/supervisord.conf''] no_kwargs 101,
             WaitPid 101 0]\<rparr>))"
proof -
  let ?c0 = "[(''django_config_path'', PStr ''/home/blue/app_config''),
        (''python_version'', PStr ''2.7''),
        (''project_name'', PStr ''blue''),
        (''project_name_upper'', PStr ''BLUE''),
        (''uwsgi_plugin_name'', PStr ''python''),
        (''uwsgi_workers'', PInt 10),
        (''rsyslog_host'', PStr ''172.17.0.1''),
        (''venv'', PStr ''/home/blue/app''),
        (''http_proxy'', PStr []),
        (''https_proxy'', PStr []),
        (''no_proxy'', PStr [])]"
  let ?w1 = "world0\<lparr>clock := 1, trace := [CheckOutput [''ip'', ''route'', ''show'', ''0.0.0.0/0'']]\<rparr>"
  have ctx: "get_context os_base world0 = Some (Returns ?c0 ?w1)"
    using get_context_base [of "wait_result os_base"] by simp
  have ext: "context_app = AList.update ''service'' (PStr ''app'') ?c0"
    by (simp add: context_app_def)
  have h: "home os_base \<noteq> []" "hd (home os_base) = CHR ''/''"
    by (simp_all add: os_base_def)
  have wr: "open_write_error os_base (home os_base @ ''/etc/uwsgi.ini'') = None"
    "open_write_error os_base (home os_base @ ''/etc/nginx.conf'') = None"
    "open_write_error os_base (home os_base @ ''/etc/supervisord.conf'') = None"
    by (simp_all add: os_base_def)
  have rd: "template_result os_base ''/home/blue/templates/uwsgi.ini'' context_app = Inr ''rendered''"
    "template_result os_base ''/home/blue/templates/nginx.conf'' context_app = Inr ''rendered''"
    "template_result os_base ''/home/blue/templates/supervisord.conf'' context_app = Inr ''rendered''"
    by (simp_all add: os_base_def)
  have sp: "popen_result os_base (clock world0 + 1)
      [''supervisord'', ''-c'', home os_base @ ''/etc/supervisord.conf''] no_kwargs = Inr 101"
    by (simp add: os_base_def world0_def)
  from start_service_renders_then_runs_supervisord
    [OF ctx h ext wr rd sp, of "''start''" "[]"]
  show ?thesis by (simp add: os_base_def world0_def)
qed

text \<open>
  C9 as stated fails: the process-supervisor has been started (the spawn returned pid
  101) and keeps running, and \<^verbatim>\<open>start_service\<close> does not return.
\<close>

theorem start_service_blocks_on_supervisord:
  "popen_result os_daemon_stays 1 [''supervisord'', ''-c'', ''/home/blue/etc/supervisord.conf'']
      no_kwargs = Inr 101
   \<and> wait_result os_daemon_stays 2 101 = None
   \<and> start_service os_daemon_stays ''start'' [''app''] world0 = None"
proof -
  let ?c0 = "[(''django_config_path'', PStr ''/home/blue/app_config''),
        (''python_version'', PStr ''2.7''),
        (''project_name'', PStr ''blue''),
        (''project_name_upper'', PStr ''BLUE''),
        (''uwsgi_plugin_name'', PStr ''python''),
        (''uwsgi_workers'', PInt 10),
        (''rsyslog_host'', PStr ''172.17.0.1''),
        (''venv'', PStr ''/home/blue/app''),
        (''http_proxy'', PStr []),
        (''https_proxy'', PStr []),
        (''no_proxy'', PStr [])]"
  let ?w1 = "world0\<lparr>clock := 1, trace := [CheckOutput [''ip'', ''route'', ''show'', ''0.0.0.0/0'']]\<rparr>"
  have ctx: "get_context os_daemon_stays world0 = Some (Returns ?c0 ?w1)"
    unfolding os_daemon_stays_def by (rule get_context_base)
  have ext: "context_app = AList.update ''service'' (PStr ''app'') ?c0"
    by (simp add: context_app_def)
  have h: "home os_daemon_stays \<noteq> []" "hd (home os_daemon_stays) = CHR ''/''"
    by (simp_all add: os_daemon_stays_def os_base_def)
  have wr: "open_write_error os_daemon_stays (home os_daemon_stays @ ''/etc/uwsgi.ini'') = None"
    "open_write_error os_daemon_stays (home os_daemon_stays @ ''/etc/nginx.conf'') = None"
    "open_write_error os_daemon_stays (home os_daemon_stays @ ''/etc/supervisord.conf'') = None"
    by (simp_all add: os_daemon_stays_def os_base_def)
  have rd: "template_result os_daemon_stays ''/home/blue/templates/uwsgi.ini'' context_app = Inr ''rendered''"
    "template_result os_daemon_stays ''/home/blue/templates/nginx.conf'' context_app = Inr ''rendered''"
    "template_result os_daemon_stays ''/home/blue/templates/supervisord.conf'' context_app = Inr ''rendered''"
    by (simp_all add: os_daemon_stays_def os_base_def)
  have sp: "popen_result os_daemon_stays (clock world0 + 1)
      [''supervisord'', ''-c'', home os_daemon_stays @ ''/etc/supervisord.conf''] no_kwargs = Inr 101"
    by (simp add: os_daemon_stays_def os_base_def world0_def)
  from start_service_run [OF ctx h ext wr rd sp, of "''start''" "[]"]
  have "start_service os_daemon_stays ''start'' [''app''] world0 = None"
    by (simp add: os_daemon_stays_def)
  then show ?thesis by (simp add: os_daemon_stays_def os_base_def)
qed

end
